theory Spec2Isabelle
  imports Complex_Main "HOL-Library.Sublist"
begin

section \<open>Build targets\<close>

text \<open>
  \<^verbatim>\<open>app_init.cpp\<close> is compiled differently per target: \<^verbatim>\<open>ANDROID\<close>, \<^verbatim>\<open>__APPLE__\<close>,
  \<^verbatim>\<open>__linux__\<close> (without \<^verbatim>\<open>ANDROID\<close> and \<^verbatim>\<open>__APPLE__\<close>) and everything else
  (\<^verbatim>\<open>WIN32\<close> in practice). Every preprocessor conditional of the file becomes a
  test on this value.
\<close>

datatype platform = Android | Apple | Linux | Windows

section \<open>Paths\<close>

text \<open>
  \<^verbatim>\<open>fs::path\<close> is a Boost.Filesystem path: a string with an append operator. The file
  relies on the version 3 reading of \<^verbatim>\<open>operator/\<close> (the driver loader appends
  \<^verbatim>\<open>"/"\<close> to obtain a trailing separator): appending the empty path changes
  nothing, an argument that starts with a separator is concatenated as it is, and
  otherwise a separator is inserted unless the left side is empty or already ends with
  one (on Windows also unless it ends with a colon).
\<close>

type_synonym path = string

definition is_separator :: "platform \<Rightarrow> char \<Rightarrow> bool" where
  "is_separator pl c = (c = CHR ''/'' \<or> (pl = Windows \<and> c = CHR 0x5C))"

definition preferred_separator :: "platform \<Rightarrow> char" where
  "preferred_separator pl = (if pl = Windows then CHR 0x5C else CHR ''/'')"

definition append_separator_if_needed :: "platform \<Rightarrow> path \<Rightarrow> path" where
  "append_separator_if_needed pl p =
     (if p \<noteq> [] \<and> \<not> (pl = Windows \<and> last p = CHR '':'') \<and> \<not> is_separator pl (last p)
      then p @ [preferred_separator pl] else p)"

definition slash :: "platform \<Rightarrow> path \<Rightarrow> string \<Rightarrow> path" where
  "slash pl p s =
     (if s = [] then p
      else if is_separator pl (hd s) then p @ s
      else append_separator_if_needed pl p @ s)"

text \<open>
  \<^verbatim>\<open>operator==\<close> on two paths compares their element sequences, as the path iterator
  of Boost.Filesystem version 3 produces them: a root name (two leading separators
  followed by a name, or on Windows a device name ending with a colon), the root
  directory \<^verbatim>\<open>/\<close>, the file names between runs of separators, and \<^verbatim>\<open>.\<close> for a
  trailing separator that is not the root directory. Equal strings are equal paths;
  \<^verbatim>\<open>a//b\<close> and \<^verbatim>\<open>a/b\<close> are equal paths and different strings.
\<close>

fun filenames :: "platform \<Rightarrow> string \<Rightarrow> string \<Rightarrow> string list" where
  "filenames pl cur [] = (if cur = [] then [] else [cur])"
| "filenames pl cur (c # cs) =
     (if is_separator pl c
      then (if cur = [] then filenames pl [] cs
            else cur # (if dropWhile (is_separator pl) cs = [] then [''.'']
                        else filenames pl [] cs))
      else filenames pl (cur @ [c]) cs)"

definition path_elements :: "platform \<Rightarrow> path \<Rightarrow> string list" where
  "path_elements pl p =
     (let sep = is_separator pl;
          net = (2 \<le> length p \<and> sep (p ! 0) \<and> sep (p ! 1) \<and> (length p = 2 \<or> \<not> sep (p ! 2)))
      in if p = [] then []
         else if sep (hd p) \<and> \<not> net then ''/'' # filenames pl [] (dropWhile sep p)
         else
           (let body = (if net then drop 2 p else p);
                n0 = length (takeWhile (\<lambda>c. \<not> sep c \<and> \<not> (pl = Windows \<and> c = CHR '':'')) body);
                n = (if n0 < length body \<and> body ! n0 = CHR '':'' then n0 + 1 else n0);
                first = (if net then take 2 p else []) @ take n body;
                rest = drop n body
            in if rest = [] then [first]
               else if sep (hd rest)
               then (if (net \<and> 2 < length first) \<or> (pl = Windows \<and> last first = CHR '':'')
                     then first # ''/'' # filenames pl [] (tl rest)
                     else first # (if dropWhile sep rest = [] then [''.'']
                                   else filenames pl [] rest))
               else first # filenames pl [] rest))"

definition path_eq :: "platform \<Rightarrow> path \<Rightarrow> path \<Rightarrow> bool" where
  "path_eq pl p q = (path_elements pl p = path_elements pl q)"

text \<open>
  \<^verbatim>\<open>app_name\<close> is declared in \<^verbatim>\<open>config/version.h\<close>; the comments of
  \<^verbatim>\<open>init_paths\<close> spell its value out (\<^verbatim>\<open>Vita3K/Vita3K/\<close>, \<^verbatim>\<open>usr/share/Vita3K\<close>).
\<close>

definition app_name :: string where
  "app_name = ''Vita3K''"

text \<open>
  \<^verbatim>\<open>string_utils::split_string\<close> reads the segments with \<^verbatim>\<open>std::getline\<close>: the
  text between two delimiters is a segment, and an empty segment after the last
  delimiter is not produced.
\<close>

fun split_string :: "string \<Rightarrow> char \<Rightarrow> string list" where
  "split_string [] d = []"
| "split_string (c # cs) d =
     (if c = d then [] # split_string cs d
      else (case split_string cs d of [] \<Rightarrow> [[c]] | w # ws \<Rightarrow> (c # w) # ws))"

section \<open>The host: everything \<^verbatim>\<open>init_paths\<close> asks the outside world\<close>

text \<open>
  The SDL calls, \<^verbatim>\<open>getenv\<close> and the file-system probes are inputs. So is
  \<^verbatim>\<open>fs::path::parent_path\<close>, library code that the Apple branch applies four times to
  the base path: it is left uninterpreted.
\<close>

record host =
  sdl_base_path :: string
  sdl_pref_path :: string
  android_external_storage_path :: string
  getenv :: "string \<Rightarrow> string option"
  fs_exists :: "path \<Rightarrow> bool"
  fs_is_directory :: "path \<Rightarrow> bool"
  parent_path :: "path \<Rightarrow> path"

text \<open>
  \<^verbatim>\<open>Root\<close> holds the seven resolved directories; \<^verbatim>\<open>set_base_path\<close> and its siblings
  are the record updates, \<^verbatim>\<open>get_base_path\<close> and its siblings the selectors.
\<close>

record Root =
  base_path :: path
  static_assets_path :: path
  pref_path :: path
  log_path :: path
  config_path :: path
  shared_path :: path
  cache_path :: path

definition empty_root :: Root where
  "empty_root = \<lparr>base_path = [], static_assets_path = [], pref_path = [], log_path = [],
     config_path = [], shared_path = [], cache_path = []\<rparr>"

section \<open>\<^verbatim>\<open>init_paths\<close>\<close>

text \<open>The Android branch (lines 201 to 212).\<close>

definition init_paths_android :: "host \<Rightarrow> Root \<Rightarrow> Root" where
  "init_paths_android h root_paths =
     (let storage_path = slash Android (android_external_storage_path h) '''';
          vita_storage_path = slash Android storage_path ''vita/''
      in root_paths
           \<lparr>base_path := storage_path,
            static_assets_path := storage_path,
            pref_path := vita_storage_path,
            log_path := storage_path,
            config_path := storage_path,
            shared_path := storage_path,
            cache_path := slash Android (slash Android storage_path ''cache'') ''''\<rparr>)"

text \<open>The candidate portable directory (lines 221 to 227).\<close>

definition portable_path :: "platform \<Rightarrow> host \<Rightarrow> path" where
  "portable_path pl h =
     (if pl = Apple
      then slash pl (slash pl
             (parent_path h (parent_path h (parent_path h (parent_path h (sdl_base_path h)))))
             ''portable'') ''''
      else slash pl (slash pl (sdl_base_path h) ''portable'') '''')"

text \<open>
  The first entry of \<^verbatim>\<open>XDG_DATA_DIRS\<close> that holds a directory entry named after the
  application (the two \<^verbatim>\<open>for\<close> loops with \<^verbatim>\<open>break\<close>, lines 302 to 307 and 323 to 328).
\<close>

definition first_data_dir :: "host \<Rightarrow> string list \<Rightarrow> string option" where
  "first_data_dir h env_paths = find (\<lambda>i. fs_exists h (slash Linux i app_name)) env_paths"

text \<open>The XDG refinement of the Linux build (lines 270 to 331), statement by statement.\<close>

definition init_paths_xdg :: "host \<Rightarrow> Root \<Rightarrow> Root" where
  "init_paths_xdg h r0 =
     (let env_home = getenv h ''HOME'';
          XDG_DATA_DIRS = getenv h ''XDG_DATA_DIRS'';
          XDG_DATA_HOME = getenv h ''XDG_DATA_HOME'';
          XDG_CACHE_HOME = getenv h ''XDG_CACHE_HOME'';
          XDG_CONFIG_HOME = getenv h ''XDG_CONFIG_HOME'';
          APPDIR = getenv h ''APPDIR'';
          sl = slash Linux;
          r1 = (case XDG_DATA_HOME of
                  Some d \<Rightarrow> r0\<lparr>pref_path := sl (sl (sl d app_name) app_name) ''''\<rparr>
                | None \<Rightarrow> r0);
          r2 = (case XDG_CONFIG_HOME of
                  Some c \<Rightarrow> r1\<lparr>config_path := sl (sl c app_name) ''''\<rparr>
                | None \<Rightarrow>
                    (case env_home of
                       Some hm \<Rightarrow> r1\<lparr>config_path := sl (sl (sl hm ''.config'') app_name) ''''\<rparr>
                     | None \<Rightarrow> r1));
          r3 = (case XDG_CACHE_HOME of
                  Some c \<Rightarrow> r2\<lparr>cache_path := sl (sl c app_name) '''',
                              log_path := sl (sl c app_name) ''''\<rparr>
                | None \<Rightarrow>
                    (case env_home of
                       Some hm \<Rightarrow> r2\<lparr>cache_path := sl (sl (sl hm ''.cache'') app_name) '''',
                                    log_path := sl (sl (sl hm ''.cache'') app_name) ''''\<rparr>
                     | None \<Rightarrow> r2));
          r4 = (if fs_exists h (sl (base_path r3) ''data'') \<and>
                   fs_exists h (sl (base_path r3) ''lang'') \<and>
                   fs_exists h (sl (base_path r3) ''shaders-builtin'')
                then r3\<lparr>static_assets_path := base_path r3\<rparr>
                else (case env_home of
                        Some hm \<Rightarrow>
                          r3\<lparr>static_assets_path := sl (sl (sl hm ''.local/share'') app_name) ''''\<rparr>
                      | None \<Rightarrow> r3));
          r5 = (case XDG_DATA_DIRS of
                  Some dirs \<Rightarrow>
                    (case first_data_dir h (split_string dirs CHR '':'') of
                       Some i \<Rightarrow> r4\<lparr>static_assets_path := sl (sl i app_name) ''''\<rparr>
                     | None \<Rightarrow> r4)
                | None \<Rightarrow>
                    (case XDG_DATA_HOME of
                       Some d \<Rightarrow>
                         if fs_exists h (sl (sl d app_name) ''data'') \<and>
                            fs_exists h (sl (sl d app_name) ''lang'') \<and>
                            fs_exists h (sl (sl d app_name) ''shaders-builtin'')
                         then r4\<lparr>static_assets_path := sl (sl d app_name) ''''\<rparr>
                         else r4
                     | None \<Rightarrow> r4));
          r6 = (case APPDIR of
                  Some a \<Rightarrow>
                    if fs_exists h (sl a ''usr/share/Vita3K'')
                    then r5\<lparr>static_assets_path := sl a ''usr/share/Vita3K''\<rparr>
                    else r5
                | None \<Rightarrow> r5);
          r7 = (case env_home of
                  Some hm \<Rightarrow> r6\<lparr>shared_path := sl (sl (sl hm ''.local/share'') app_name) ''''\<rparr>
                | None \<Rightarrow> r6);
          r8 = (case XDG_DATA_DIRS of
                  Some dirs \<Rightarrow>
                    (case first_data_dir h (split_string dirs CHR '':'') of
                       Some i \<Rightarrow> r7\<lparr>shared_path := sl (sl i app_name) ''''\<rparr>
                     | None \<Rightarrow> r7)
                | None \<Rightarrow>
                    (case XDG_DATA_HOME of
                       Some d \<Rightarrow> r7\<lparr>shared_path := sl (sl d app_name) ''''\<rparr>
                     | None \<Rightarrow> r7))
      in r8)"

text \<open>
  The branch without a portable directory (lines 238 to 332). On Apple the local
  variables \<^verbatim>\<open>base_path\<close> and \<^verbatim>\<open>pref_path\<close> are redirected first: to the
  per-user directory unless a \<^verbatim>\<open>config.yml\<close> lies beside the executable, and into
  its \<^verbatim>\<open>fs\<close> subdirectory unless a \<^verbatim>\<open>ux0\<close> directory already lies in it.
\<close>

definition init_paths_user :: "platform \<Rightarrow> host \<Rightarrow> Root \<Rightarrow> Root" where
  "init_paths_user pl h root_paths =
     (let pref0 = sdl_pref_path h;
          existing_config = slash pl (sdl_base_path h) ''config.yml'';
          base = (if pl = Apple \<and> \<not> fs_exists h existing_config
                  then pref0 else sdl_base_path h);
          existing_ux0 = slash pl pref0 ''ux0'';
          pref = (if pl = Apple \<and> \<not> fs_is_directory h existing_ux0
                  then slash pl (slash pl pref0 ''fs'') '''' else pref0);
          r = root_paths
                \<lparr>pref_path := pref,
                 log_path := base,
                 config_path := base,
                 shared_path := base,
                 cache_path := slash pl (slash pl base ''cache'') ''''\<rparr>
      in if pl = Linux then init_paths_xdg h r else r)"

text \<open>The branch with a portable directory (lines 230 to 236).\<close>

definition init_paths_portable :: "platform \<Rightarrow> path \<Rightarrow> Root \<Rightarrow> Root" where
  "init_paths_portable pl portable root_paths =
     root_paths
       \<lparr>pref_path := slash pl (slash pl portable ''fs'') '''',
        log_path := portable,
        config_path := portable,
        shared_path := portable,
        cache_path := slash pl (slash pl portable ''cache'') ''''\<rparr>"

text \<open>
  \<^verbatim>\<open>init_paths\<close> itself. Its second result lists the directories handed to
  \<^verbatim>\<open>fs::create_directories\<close> at the end, in call order.
\<close>

definition resolve_paths :: "platform \<Rightarrow> host \<Rightarrow> Root \<Rightarrow> Root" where
  "resolve_paths pl h root_paths =
     (if pl = Android then init_paths_android h root_paths
      else
        (let r = root_paths\<lparr>base_path := sdl_base_path h,
                             static_assets_path := sdl_base_path h\<rparr>
         in if fs_is_directory h (portable_path pl h)
            then init_paths_portable pl (portable_path pl h) r
            else init_paths_user pl h r))"

definition init_paths :: "platform \<Rightarrow> host \<Rightarrow> Root \<Rightarrow> Root \<times> path list" where
  "init_paths pl h root_paths =
     (let r = resolve_paths pl h root_paths
      in (r, [config_path r, cache_path r,
              slash pl (log_path r) ''shaderlog'',
              slash pl (log_path r) ''texturelog'']))"

section \<open>The emulator state\<close>

text \<open>
  Modelled from the spec: the enumerations \<^verbatim>\<open>renderer::Backend\<close> and
  \<^verbatim>\<open>MappingMethod\<close> are declared outside this file. The spec lists their values:
  the backend is OpenGL, Vulkan or unimplemented, the mapping method is direct,
  page-table or native-buffer.
\<close>

datatype Backend = OpenGL | Vulkan | Unimplemented

datatype MappingMethod = Direct | PageTable | NativeBuffer

text \<open>
  \<^verbatim>\<open>CPUBackend\<close> and \<^verbatim>\<open>ThreadStatus\<close> are kernel enumerations; this file names
  \<^verbatim>\<open>CPUBackend::Unicorn\<close>, \<^verbatim>\<open>ThreadStatus::run\<close> and \<^verbatim>\<open>ThreadStatus::wait\<close>. The
  remaining values are folded into one constructor each.
\<close>

datatype CPUBackend = Unicorn | OtherCPU

datatype ThreadStatus = run | wait | dormant

type_synonym SceUID = int

text \<open>
  Modelled from the spec: \<^verbatim>\<open>DEFAULT_RES_WIDTH\<close> and \<^verbatim>\<open>DEFAULT_RES_HEIGHT\<close> are
  declared outside this file; the spec gives the reference resolution 960 by 544.
\<close>

definition DEFAULT_RES_WIDTH :: int where
  "DEFAULT_RES_WIDTH = 960"

definition DEFAULT_RES_HEIGHT :: int where
  "DEFAULT_RES_HEIGHT = 544"

text \<open>
  Single-precision arithmetic is a parameter: the operations \<^verbatim>\<open>update_viewport\<close> and
  \<^verbatim>\<open>init\<close> apply to \<^verbatim>\<open>float\<close> values, with no assumption on how they round.
\<close>

record 'f float_ops =
  f_of_int :: "int \<Rightarrow> 'f"
  f_mul :: "'f \<Rightarrow> 'f \<Rightarrow> 'f"
  f_div :: "'f \<Rightarrow> 'f \<Rightarrow> 'f"
  f_sub :: "'f \<Rightarrow> 'f \<Rightarrow> 'f"
  f_gt :: "'f \<Rightarrow> 'f \<Rightarrow> bool"
  f_to_uint32 :: "'f \<Rightarrow> nat"

text \<open>The fields of \<^verbatim>\<open>state.cfg\<close> that the file reads or writes.\<close>

record Config =
  stretch_the_display_area :: bool
  cfg_pref_path :: string
  current_config_backend_renderer :: string
  cfg_backend_renderer :: string
  cfg_config_path :: path
  fullscreen :: bool
  current_config_custom_driver_name :: string
  console :: bool
  enable_gamepad_overlay :: bool
  audio_backend :: string

datatype window_flag =
  SDL_WINDOW_OPENGL | SDL_WINDOW_VULKAN | SDL_WINDOW_FULLSCREEN_DESKTOP | SDL_WINDOW_RESIZABLE

text \<open>
  The fields of \<^verbatim>\<open>EmuEnvState\<close> that the file reads or writes. The renderer, the
  memory, the kernel, the audio and the GUI are represented by the fields this file
  touches: \<^verbatim>\<open>renderer->current_backend\<close>, \<^verbatim>\<open>renderer->mapping_method\<close>,
  \<^verbatim>\<open>renderer->current_custom_driver\<close>, \<^verbatim>\<open>mem.use_page_table\<close>,
  \<^verbatim>\<open>kernel.cpu_backend\<close>, \<^verbatim>\<open>kernel.threads\<close>, the audio stream's paused flag and
  the controller overlay mask.
\<close>

record 'f EmuEnvState =
  cfg :: Config
  state_base_path :: path
  state_default_path :: path
  state_log_path :: path
  state_config_path :: path
  state_cache_path :: path
  state_shared_path :: path
  state_static_assets_path :: path
  state_pref_path :: path
  backend_renderer :: Backend
  display_fullscreen :: bool
  display_imgui_render :: bool
  dpi_scale :: 'f
  res_width_dpi_scale :: nat
  res_height_dpi_scale :: nat
  window :: bool
  renderer_current_backend :: Backend
  renderer_mapping_method :: MappingMethod
  renderer_current_custom_driver :: string
  drawable_size :: "int \<times> int"
  viewport_pos :: "'f \<times> 'f"
  viewport_size :: "'f \<times> 'f"
  mem_use_page_table :: bool
  kernel_cpu_backend :: CPUBackend
  kernel_threads :: "SceUID \<Rightarrow> ThreadStatus option"
  audio_paused :: bool
  controller_overlay_state :: nat

text \<open>
  What the functions do to the outside world, in program order. A log entry keeps the
  format string and its arguments; \<^verbatim>\<open>LOG_INFO\<close> lines are not recorded.
\<close>

datatype event =
    LogError string "string list"
  | LogWarn string
  | LogCritical string
  | CreateDirectory path
  | OpenLibvulkan "path option" path path string path
  | VulkanLoadLibrary nat nat
  | SerializeConfig Config path
  | CreateWindow nat nat "window_flag set"
  | RendererInit Backend
  | ErrorDialog string
  | IoInit path path path bool
  | MotionInit
  | RendererLateInit
  | MemInit bool
  | AudioInit string
  | NgsInit

section \<open>\<^verbatim>\<open>load_custom_driver\<close> (Android)\<close>

text \<open>
  What the loader asks the device: the SDL and JNI answers, the file-system probe, the
  first word of a file (\<^verbatim>\<open>name_file >> main_so_name\<close>), the handle returned by
  \<^verbatim>\<open>adrenotools_open_libvulkan\<close> (0 is the null pointer) and the status returned by
  \<^verbatim>\<open>SDL_Vulkan_LoadLibrary\<close>.
\<close>

record device =
  internal_storage_path :: string
  android_sdk_version :: int
  native_library_dir :: string
  device_exists :: "path \<Rightarrow> bool"
  first_word :: "path \<Rightarrow> string"
  libvulkan_handle :: nat
  vulkan_load_library_status :: int

text \<open>Line 60: the directory of the driver inside the internal storage.\<close>

definition driver_dir :: "device \<Rightarrow> string \<Rightarrow> path" where
  "driver_dir dev driver_name =
     slash Android (slash Android (slash Android (internal_storage_path dev) ''driver'')
       driver_name) ''/''"

definition load_custom_driver :: "device \<Rightarrow> string \<Rightarrow> bool \<times> event list" where
  "load_custom_driver dev driver_name =
     (let sl = slash Android;
          driver_path = driver_dir dev driver_name
      in if \<not> device_exists dev driver_path
         then (False, [LogError ''Could not find driver {}'' [driver_name]])
         else
           (let driver_name_file = sl driver_path ''driver_name.txt''
            in if \<not> device_exists dev driver_name_file
               then (False, [LogError ''Could not find driver driver_name.txt'' []])
               else
                 (let main_so_name = first_word dev driver_name_file;
                      temp_dir_path = sl driver_path ''tmp/'';
                      temp_dir = (if android_sdk_version dev < 29
                                  then Some temp_dir_path else None);
                      ev_tmp = (if android_sdk_version dev < 29
                                then [CreateDirectory temp_dir_path] else []);
                      lib_dir = sl (native_library_dir dev) ''/'';
                      ev_open = ev_tmp @
                        [CreateDirectory (sl driver_path ''file_redirect''),
                         OpenLibvulkan temp_dir lib_dir driver_path main_so_name
                           (sl driver_path ''file_redirect/'')];
                      vulkan_handle = libvulkan_handle dev
                  in if vulkan_handle = 0
                     then (False, ev_open @
                            [LogError ''Could not open handle for custom driver {}''
                               [driver_name]])
                     else if vulkan_load_library_status dev < 0
                     then (False, ev_open @
                            [VulkanLoadLibrary 0xFEEDC0DE vulkan_handle,
                             LogError ''Could not load custom diver, error {}'' []])
                     else (True, ev_open @ [VulkanLoadLibrary 0xFEEDC0DE vulkan_handle]))))"

section \<open>The subsystems behind the bootstrap\<close>

text \<open>
  What the bootstrap asks SDL and the subsystems it starts: the drawable size by
  backend, whether the window could be created, the backend of the renderer that
  \<^verbatim>\<open>renderer::init\<close> built (\<open>None\<close> when it failed), the outcome of the file-system
  initialisation, the mapping method the renderer holds after its \<^verbatim>\<open>late_init\<close>, the
  outcome of the memory initialisation for a given \<^verbatim>\<open>need_page_table\<close> (\<open>None\<close> when
  it failed, otherwise the resulting \<^verbatim>\<open>mem.use_page_table\<close>), the outcomes of the
  audio and ngs initialisations, and \<^verbatim>\<open>gui::get_overlay_display_mask\<close>.
\<close>

record subsystems =
  gl_drawable_size :: "int \<times> int"
  vulkan_drawable_size :: "int \<times> int"
  create_window_ok :: bool
  renderer_init :: "Backend \<Rightarrow> Backend option"
  io_init_ok :: bool
  late_mapping_method :: MappingMethod
  mem_init :: "bool \<Rightarrow> bool option"
  audio_init_ok :: bool
  ngs_init_ok :: bool
  get_overlay_display_mask :: "Config \<Rightarrow> nat"

section \<open>\<^verbatim>\<open>update_viewport\<close>\<close>

text \<open>The \<^verbatim>\<open>switch\<close> of lines 152 to 164: \<open>w\<close> and \<open>h\<close> stay 0 in the default case.\<close>

definition get_drawable_size :: "subsystems \<Rightarrow> Backend \<Rightarrow> (int \<times> int) \<times> event list" where
  "get_drawable_size sub b =
     (case b of
        OpenGL \<Rightarrow> (gl_drawable_size sub, [])
      | Vulkan \<Rightarrow> (vulkan_drawable_size sub, [])
      | Unimplemented \<Rightarrow> ((0, 0), [LogError ''Unimplemented backend renderer: {}.'' []]))"

definition vita_aspect :: "'f float_ops \<Rightarrow> 'f" where
  "vita_aspect fo = f_div fo (f_of_int fo DEFAULT_RES_WIDTH) (f_of_int fo DEFAULT_RES_HEIGHT)"

definition update_viewport ::
  "'f float_ops \<Rightarrow> subsystems \<Rightarrow> 'f EmuEnvState \<Rightarrow> 'f EmuEnvState \<times> event list" where
  "update_viewport fo sub state =
     (let ((w, h), ev) = get_drawable_size sub (renderer_current_backend state);
          state = state\<lparr>drawable_size := (w, h)\<rparr>
      in if h > 0
         then
           (let window_aspect = f_div fo (f_of_int fo w) (f_of_int fo h)
            in if stretch_the_display_area (cfg state)
               then (state\<lparr>viewport_size := (f_of_int fo w, f_of_int fo h),
                            viewport_pos := (f_of_int fo 0, f_of_int fo 0)\<rparr>, ev)
               else if f_gt fo window_aspect (vita_aspect fo)
               then
                 (let size_x = f_mul fo (f_of_int fo h) (vita_aspect fo)
                  in (state\<lparr>viewport_size := (size_x, f_of_int fo h),
                             viewport_pos :=
                               (f_div fo (f_sub fo (f_of_int fo w) size_x) (f_of_int fo 2),
                                f_of_int fo 0)\<rparr>, ev))
               else
                 (let size_y = f_div fo (f_of_int fo w) (vita_aspect fo)
                  in (state\<lparr>viewport_size := (f_of_int fo w, size_y),
                             viewport_pos :=
                               (f_of_int fo 0,
                                f_div fo (f_sub fo (f_of_int fo h) size_y) (f_of_int fo 2))\<rparr>,
                      ev)))
         else (state\<lparr>viewport_pos := (f_of_int fo 0, f_of_int fo 0),
                      viewport_size := (f_of_int fo 0, f_of_int fo 0)\<rparr>, ev))"

section \<open>\<^verbatim>\<open>init\<close>\<close>

text \<open>
  \<^verbatim>\<open>string_utils::toupper\<close> maps \<^verbatim>\<open>std::toupper\<close> over the string: the letters a to z
  become A to Z, every other character stays.
\<close>

definition toupper_char :: "char \<Rightarrow> char" where
  "toupper_char c =
     (let n = (of_char c :: nat) in if 97 \<le> n \<and> n \<le> 122 then char_of (n - 32) else c)"

definition toupper :: "string \<Rightarrow> string" where
  "toupper s = map toupper_char s"

text \<open>Lines 344 to 350: the resolved roots are copied into the state.\<close>

definition seed_paths :: "Root \<Rightarrow> 'f EmuEnvState \<Rightarrow> 'f EmuEnvState" where
  "seed_paths root_paths state =
     state\<lparr>state_base_path := base_path root_paths,
           state_default_path := pref_path root_paths,
           state_log_path := log_path root_paths,
           state_config_path := config_path root_paths,
           state_cache_path := cache_path root_paths,
           state_shared_path := shared_path root_paths,
           state_static_assets_path := static_assets_path root_paths\<rparr>"

text \<open>
  Lines 353 to 360: the configured preference path against the resolved one. The
  configured string is compared with the resolved path as a path (\<open>path_eq\<close>).
\<close>

definition reconcile_pref_path :: "platform \<Rightarrow> Root \<Rightarrow> 'f EmuEnvState \<Rightarrow> 'f EmuEnvState" where
  "reconcile_pref_path pl root_paths state =
     (if path_eq pl (cfg_pref_path (cfg state)) (pref_path root_paths) \<or>
         cfg_pref_path (cfg state) = []
      then state\<lparr>state_pref_path := pref_path root_paths\<rparr>
      else
        (let last_char = last (cfg_pref_path (cfg state));
             c = (if last_char \<noteq> preferred_separator pl \<and> last_char \<noteq> CHR ''/''
                  then (cfg state)\<lparr>cfg_pref_path :=
                         cfg_pref_path (cfg state) @ [preferred_separator pl]\<rparr>
                  else cfg state)
         in state\<lparr>cfg := c, state_pref_path := cfg_pref_path c\<rparr>))"

text \<open>
  Lines 378 to 387: the backend. Vulkan is set first; a configuration that asks for
  OpenGL gets it, except on Apple, where \<^verbatim>\<open>cfg.backend_renderer\<close> is overwritten with
  \<^verbatim>\<open>"Vulkan"\<close> and the configuration is written back to \<^verbatim>\<open>cfg.config_path\<close>.
\<close>

definition select_backend :: "platform \<Rightarrow> 'f EmuEnvState \<Rightarrow> 'f EmuEnvState \<times> event list" where
  "select_backend pl state =
     (let state = state\<lparr>backend_renderer := Vulkan\<rparr>
      in if toupper (current_config_backend_renderer (cfg state)) = ''OPENGL''
         then
           (if pl = Apple
            then
              (let c = (cfg state)\<lparr>cfg_backend_renderer := ''Vulkan''\<rparr>
               in (state\<lparr>cfg := c\<rparr>, [SerializeConfig c (cfg_config_path c)]))
            else (state\<lparr>backend_renderer := OpenGL\<rparr>, []))
         else (state, []))"

text \<open>Lines 389 to 402: the window flag of the backend.\<close>

definition backend_window_type :: "Backend \<Rightarrow> window_flag set \<times> event list" where
  "backend_window_type b =
     (case b of
        OpenGL \<Rightarrow> ({SDL_WINDOW_OPENGL}, [])
      | Vulkan \<Rightarrow> ({SDL_WINDOW_VULKAN}, [])
      | Unimplemented \<Rightarrow> ({}, [LogError ''Unimplemented backend renderer: {}.'' []]))"

text \<open>The dialog of a failed \<^verbatim>\<open>renderer::init\<close> (lines 454 to 470).\<close>

definition renderer_error_dialog :: "platform \<Rightarrow> Backend \<Rightarrow> string" where
  "renderer_error_dialog pl b =
     (case b of
        OpenGL \<Rightarrow>
          (if pl = Android then ''Could not create OpenGL ES context!''
           else ''Could not create OpenGL context!'')
      | Vulkan \<Rightarrow> ''Could not create Vulkan context!''
      | Unimplemented \<Rightarrow> ''Unknown backend renderer: {}.'')"

text \<open>
  Lines 449 to 492, once the window exists: the renderer (skipped in console mode),
  the viewport, the file system of the emulator, the motion state.
\<close>

definition init_subsystems ::
  "platform \<Rightarrow> 'f float_ops \<Rightarrow> subsystems \<Rightarrow> 'f EmuEnvState \<Rightarrow>
     bool \<times> 'f EmuEnvState \<times> event list" where
  "init_subsystems pl fo sub state =
     (let (renderer_ok, s1, ev1) =
            (if console (cfg state) then (True, state, [])
             else
               (case renderer_init sub (backend_renderer state) of
                  Some b \<Rightarrow>
                    (let (s, ev) = update_viewport fo sub (state\<lparr>renderer_current_backend := b\<rparr>)
                     in (True, s, RendererInit (backend_renderer state) # ev))
                | None \<Rightarrow>
                    (False, state,
                     [RendererInit (backend_renderer state),
                      ErrorDialog (renderer_error_dialog pl (backend_renderer state))])))
      in if \<not> renderer_ok then (False, s1, ev1)
         else
           (let s2 = (if pl = Android
                      then s1\<lparr>renderer_current_custom_driver :=
                                current_config_custom_driver_name (cfg s1)\<rparr>
                      else s1);
                ev2 = ev1 @ [IoInit (state_cache_path s2) (state_log_path s2)
                               (state_pref_path s2) (console (cfg s2))]
            in if \<not> io_init_ok sub
               then (False, s2, ev2 @
                      [LogError ''Failed to initialize file system for the emulator!'' []])
               else (True, s2, ev2 @ [MotionInit])))"

text \<open>
  \<^verbatim>\<open>init\<close>. The ImGui context and the optional Discord presence leave no trace in the
  modelled state and are left out.
\<close>

definition init ::
  "platform \<Rightarrow> 'f float_ops \<Rightarrow> device \<Rightarrow> subsystems \<Rightarrow> 'f EmuEnvState \<Rightarrow> Root \<Rightarrow>
     bool \<times> 'f EmuEnvState \<times> event list" where
  "init pl fo dev sub state root_paths =
     (let s1 = reconcile_pref_path pl root_paths (seed_paths root_paths state);
          (s2, ev_backend) = select_backend pl s1;
          (window_type0, ev_type) = backend_window_type (backend_renderer s2);
          go_fullscreen = (pl = Android \<or> fullscreen (cfg s2));
          s3 = (if go_fullscreen then s2\<lparr>display_fullscreen := True\<rparr> else s2);
          window_type = (if go_fullscreen
                         then insert SDL_WINDOW_FULLSCREEN_DESKTOP window_type0
                         else window_type0);
          s4 = s3\<lparr>res_width_dpi_scale :=
                     f_to_uint32 fo (f_mul fo (f_of_int fo DEFAULT_RES_WIDTH) (dpi_scale s3)),
                   res_height_dpi_scale :=
                     f_to_uint32 fo (f_mul fo (f_of_int fo DEFAULT_RES_HEIGHT) (dpi_scale s3))\<rparr>;
          (driver_ok, ev_driver) =
            (if pl = Android \<and> current_config_custom_driver_name (cfg s4) \<noteq> []
             then load_custom_driver dev (current_config_custom_driver_name (cfg s4))
             else (True, []));
          ev1 = ev_backend @ ev_type @ ev_driver
      in if \<not> driver_ok then (False, s4, ev1)
         else
           (let ev2 = ev1 @ [CreateWindow (res_width_dpi_scale s4) (res_height_dpi_scale s4)
                               (insert SDL_WINDOW_RESIZABLE window_type)];
                s5 = s4\<lparr>window := create_window_ok sub\<rparr>
            in if \<not> create_window_ok sub
               then (False, s5, ev2 @ [LogError ''SDL failed to create window!'' []])
               else
                 (let (ok, s6, ev3) = init_subsystems pl fo sub s5
                  in (ok, s6, ev2 @ ev3))))"

section \<open>\<^verbatim>\<open>late_init\<close>\<close>

text \<open>
  The callback handed to the audio state (lines 509 to 515): a waiting thread is set
  running. \<^verbatim>\<open>lock_and_find\<close> returns a null pointer for an unknown id, which the
  callback dereferences: \<open>None\<close>.
\<close>

definition resume_thread :: "'f EmuEnvState \<Rightarrow> SceUID \<Rightarrow> 'f EmuEnvState option" where
  "resume_thread state thread_id =
     (case kernel_threads state thread_id of
        None \<Rightarrow> None
      | Some status \<Rightarrow>
          Some (if status = wait
                then state\<lparr>kernel_threads := (kernel_threads state)(thread_id \<mapsto> run)\<rparr>
                else state))"

definition late_init ::
  "subsystems \<Rightarrow> 'f EmuEnvState \<Rightarrow> bool \<times> 'f EmuEnvState \<times> event list" where
  "late_init sub state =
     (let s1 = state\<lparr>renderer_mapping_method := late_mapping_method sub\<rparr>;
          need_page_table = (renderer_mapping_method s1 = PageTable \<or>
                             renderer_mapping_method s1 = NativeBuffer);
          ev1 = [RendererLateInit, MemInit need_page_table]
      in case mem_init sub need_page_table of
           None \<Rightarrow>
             (False, s1, ev1 @ [LogError ''Failed to initialize memory for emulator state!'' []])
         | Some use_page_table \<Rightarrow>
             (let s2 = s1\<lparr>mem_use_page_table := use_page_table\<rparr>;
                  ev2 = ev1 @
                    (if mem_use_page_table s2 \<and> kernel_cpu_backend s2 = Unicorn
                     then [LogCritical ''Unicorn backend is not supported with a page table'']
                     else []) @
                    [AudioInit (audio_backend (cfg s2))] @
                    (if \<not> audio_init_ok sub
                     then [LogWarn ''Failed to initialize audio! Audio will not work.'']
                     else []) @
                    [NgsInit]
              in if \<not> ngs_init_ok sub
                 then (False, s2, ev2 @ [LogError ''Failed to initialize ngs.'' []])
                 else (True, s2, ev2)))"

section \<open>\<^verbatim>\<open>switch_state\<close>\<close>

text \<open>
  Modelled from the spec: \<^verbatim>\<open>KernelState::pause_threads\<close>,
  \<^verbatim>\<open>KernelState::resume_threads\<close> and \<^verbatim>\<open>AudioState::switch_state\<close> are defined outside
  this file. The spec has the pause request move every runnable thread out of the
  runnable state, the resume request move every thread parked in the wait state to
  runnable, and the audio call suspend or resume the output stream.
\<close>

definition pause_threads :: "(SceUID \<Rightarrow> ThreadStatus option) \<Rightarrow> SceUID \<Rightarrow> ThreadStatus option" where
  "pause_threads threads = (\<lambda>t. if threads t = Some run then Some wait else threads t)"

definition resume_threads :: "(SceUID \<Rightarrow> ThreadStatus option) \<Rightarrow> SceUID \<Rightarrow> ThreadStatus option" where
  "resume_threads threads = (\<lambda>t. if threads t = Some wait then Some run else threads t)"

definition audio_switch_state :: "bool \<Rightarrow> 'f EmuEnvState \<Rightarrow> 'f EmuEnvState" where
  "audio_switch_state pause state = state\<lparr>audio_paused := pause\<rparr>"

text \<open>
  \<^verbatim>\<open>switch_state\<close> is straight-line code: a list of effects in program order, applied
  one after the other. No lock is taken around them.
\<close>

datatype effect =
    SetImguiRender bool
  | SetControllerOverlayState nat
  | PauseThreads
  | ResumeThreads
  | AudioSwitchState bool

fun apply_effect :: "effect \<Rightarrow> 'f EmuEnvState \<Rightarrow> 'f EmuEnvState" where
  "apply_effect (SetImguiRender b) state = state\<lparr>display_imgui_render := b\<rparr>"
| "apply_effect (SetControllerOverlayState m) state = state\<lparr>controller_overlay_state := m\<rparr>"
| "apply_effect PauseThreads state = state\<lparr>kernel_threads := pause_threads (kernel_threads state)\<rparr>"
| "apply_effect ResumeThreads state =
     state\<lparr>kernel_threads := resume_threads (kernel_threads state)\<rparr>"
| "apply_effect (AudioSwitchState pause) state = audio_switch_state pause state"

definition switch_state_effects :: "platform \<Rightarrow> subsystems \<Rightarrow> Config \<Rightarrow> bool \<Rightarrow> effect list" where
  "switch_state_effects pl sub c pause =
     (if pause
      then (if pl = Android then [SetImguiRender True, SetControllerOverlayState 0] else []) @
           [PauseThreads]
      else (if pl = Android
            then SetImguiRender False #
                 (if enable_gamepad_overlay c
                  then [SetControllerOverlayState (get_overlay_display_mask sub c)] else [])
            else []) @
           [ResumeThreads]) @
     [AudioSwitchState pause]"

definition switch_state ::
  "platform \<Rightarrow> subsystems \<Rightarrow> 'f EmuEnvState \<Rightarrow> bool \<Rightarrow> 'f EmuEnvState" where
  "switch_state pl sub emuenv pause =
     fold apply_effect (switch_state_effects pl sub (cfg emuenv) pause) emuenv"

text \<open>
  \<^verbatim>\<open>switch_state\<close> runs on the controlling thread while other threads read the state. It
  takes no lock, so a reader may look at the state before the first call, between any
  two calls and after the last. A run is a sequence of steps: the controlling thread
  applies its next effect, or a reader records what has been applied so far and the
  state it sees.
\<close>

record 'f run =
  pending :: "effect list"
  applied :: "effect list"
  current :: "'f EmuEnvState"
  observed :: "(effect list \<times> 'f EmuEnvState) list"

inductive step :: "'f run \<Rightarrow> 'f run \<Rightarrow> bool" where
  exec: "pending c = e # es \<Longrightarrow>
     step c (c\<lparr>pending := es, applied := applied c @ [e],
              current := apply_effect e (current c)\<rparr>)"
| observe: "step c (c\<lparr>observed := observed c @ [(applied c, current c)]\<rparr>)"

definition start :: "effect list \<Rightarrow> 'f EmuEnvState \<Rightarrow> 'f run" where
  "start program state = \<lparr>pending = program, applied = [], current = state, observed = []\<rparr>"

definition reaches :: "'f run \<Rightarrow> 'f run \<Rightarrow> bool" where
  "reaches c c' = rtranclp step c c'"

section \<open>Vocabulary of the properties\<close>




text \<open>The entry of \<^verbatim>\<open>XDG_DATA_DIRS\<close> that the two loops of \<^verbatim>\<open>init_paths\<close> stop at.\<close>

definition chosen_data_dir :: "host \<Rightarrow> string option" where
  "chosen_data_dir h =
     (case getenv h ''XDG_DATA_DIRS'' of
        None \<Rightarrow> None
      | Some dirs \<Rightarrow> first_data_dir h (split_string dirs CHR '':''))"

text \<open>
  The standard model of rounding arithmetic, for floats seen as the reals they
  denote: integers up to \<open>2\<^sup>2\<^sup>4\<close> convert exactly, and a conversion, a product or a
  quotient is within the relative error \<open>u\<close> of the exact result. IEEE single
  precision satisfies it with \<open>u = 2\<^sup>-\<^sup>2\<^sup>4\<close> as long as nothing overflows or
  underflows, which 32-bit drawable sizes cannot cause.
\<close>

definition rounds_within :: "real \<Rightarrow> real float_ops \<Rightarrow> bool" where
  "rounds_within u fo =
     ((\<forall>n. \<bar>n\<bar> \<le> 2 ^ 24 \<longrightarrow> f_of_int fo n = real_of_int n) \<and>
      (\<forall>n. \<bar>f_of_int fo n - real_of_int n\<bar> \<le> u * \<bar>real_of_int n\<bar>) \<and>
      (\<forall>a b. \<bar>f_mul fo a b - a * b\<bar> \<le> u * \<bar>a * b\<bar>) \<and>
      (\<forall>a b. b \<noteq> 0 \<longrightarrow> \<bar>f_div fo a b - a / b\<bar> \<le> u * \<bar>a / b\<bar>))"

text \<open>The reference aspect ratio, as a real number.\<close>

definition reference_aspect :: real where
  "reference_aspect = real_of_int DEFAULT_RES_WIDTH / real_of_int DEFAULT_RES_HEIGHT"

section \<open>Concrete hosts and states\<close>

text \<open>
  A lexical \<^verbatim>\<open>parent_path\<close> for the concrete hosts below: the last element of the path
  is dropped, a trailing separator counting as an element.
\<close>

definition lexical_parent :: "path \<Rightarrow> path" where
  "lexical_parent p =
     (let q = (if p \<noteq> [] \<and> last p = CHR ''/'' then butlast p
               else rev (dropWhile (\<lambda>c. c \<noteq> CHR ''/'') (rev p)))
      in if 1 < length q \<and> last q = CHR ''/'' then butlast q else q)"

text \<open>
  A Linux installation in \<^verbatim>\<open>/opt/vita3k/\<close> with a portable directory beside the
  executable. The file system answers for a directory with or without a trailing
  separator.
\<close>

definition portable_linux_host :: host where
  "portable_linux_host =
     \<lparr>sdl_base_path = ''/opt/vita3k/'',
      sdl_pref_path = ''/home/u/.local/share/Vita3K/Vita3K/'',
      android_external_storage_path = [],
      getenv = (\<lambda>v. if v = ''HOME'' then Some ''/home/u'' else None),
      fs_exists = (\<lambda>p. p = ''/opt/vita3k/portable'' \<or> p = ''/opt/vita3k/portable/''),
      fs_is_directory = (\<lambda>p. p = ''/opt/vita3k/portable'' \<or> p = ''/opt/vita3k/portable/''),
      parent_path = lexical_parent\<rparr>"



text \<open>
  A Linux installation without a portable directory, started with
  \<^verbatim>\<open>XDG_DATA_HOME=/d\<close> and \<^verbatim>\<open>XDG_CACHE_HOME=/d/Vita3K\<close>.
\<close>

definition xdg_linux_host :: host where
  "xdg_linux_host =
     \<lparr>sdl_base_path = ''/opt/vita3k/'',
      sdl_pref_path = ''/home/u/.local/share/Vita3K/Vita3K/'',
      android_external_storage_path = [],
      getenv = (\<lambda>v. if v = ''XDG_DATA_HOME'' then Some ''/d''
                     else if v = ''XDG_CACHE_HOME'' then Some ''/d/Vita3K'' else None),
      fs_exists = (\<lambda>p. False),
      fs_is_directory = (\<lambda>p. False),
      parent_path = lexical_parent\<rparr>"



text \<open>An Android device.\<close>

definition android_host :: host where
  "android_host =
     \<lparr>sdl_base_path = [],
      sdl_pref_path = [],
      android_external_storage_path = ''/storage/emulated/0/Android/data/org.vita3k.emulator/files'',
      getenv = (\<lambda>v. None),
      fs_exists = (\<lambda>p. False),
      fs_is_directory = (\<lambda>p. False),
      parent_path = lexical_parent\<rparr>"

text \<open>Arithmetic without rounding, to run the examples.\<close>

definition exact_ops :: "real float_ops" where
  "exact_ops =
     \<lparr>f_of_int = real_of_int, f_mul = (*), f_div = (/), f_sub = (-),
      f_gt = (\<lambda>a b. b < a), f_to_uint32 = (\<lambda>x. nat \<lfloor>x\<rfloor>)\<rparr>"

definition example_cfg :: Config where
  "example_cfg =
     \<lparr>stretch_the_display_area = False,
      cfg_pref_path = [],
      current_config_backend_renderer = ''OpenGL'',
      cfg_backend_renderer = ''OpenGL'',
      cfg_config_path = ''/cfg/'',
      fullscreen = False,
      current_config_custom_driver_name = ''turnip'',
      console = False,
      enable_gamepad_overlay = True,
      audio_backend = ''SDL''\<rparr>"

text \<open>A state with one running, one waiting and one dormant thread.\<close>

definition example_state :: "real EmuEnvState" where
  "example_state =
     \<lparr>cfg = example_cfg,
      state_base_path = [], state_default_path = [], state_log_path = [],
      state_config_path = [], state_cache_path = [], state_shared_path = [],
      state_static_assets_path = [], state_pref_path = [],
      backend_renderer = Unimplemented,
      display_fullscreen = False,
      display_imgui_render = False,
      dpi_scale = 1,
      res_width_dpi_scale = 0,
      res_height_dpi_scale = 0,
      window = False,
      renderer_current_backend = Vulkan,
      renderer_mapping_method = Direct,
      renderer_current_custom_driver = [],
      drawable_size = (0, 0),
      viewport_pos = (0, 0),
      viewport_size = (0, 0),
      mem_use_page_table = False,
      kernel_cpu_backend = OtherCPU,
      kernel_threads = [1 \<mapsto> run, 2 \<mapsto> wait, 3 \<mapsto> dormant],
      audio_paused = False,
      controller_overlay_state = 7\<rparr>"

text \<open>
  Subsystems that all start, except the audio; the window is minimised (drawable size
  800 by 0 under Vulkan).
\<close>

definition example_subsystems :: subsystems where
  "example_subsystems =
     \<lparr>gl_drawable_size = (1920, 1080),
      vulkan_drawable_size = (800, 0),
      create_window_ok = True,
      renderer_init = Some,
      io_init_ok = True,
      late_mapping_method = NativeBuffer,
      mem_init = Some,
      audio_init_ok = False,
      ngs_init_ok = True,
      get_overlay_display_mask = (\<lambda>c. 7)\<rparr>"

text \<open>A device whose driver directory for \<^verbatim>\<open>turnip\<close> exists and holds no manifest.\<close>

definition example_device :: device where
  "example_device =
     \<lparr>internal_storage_path = ''/data/user/0/org.vita3k.emulator/files'',
      android_sdk_version = 33,
      native_library_dir = ''/data/app/org.vita3k.emulator/lib/arm64'',
      device_exists = (\<lambda>p. p = ''/data/user/0/org.vita3k.emulator/files/driver/turnip/'' \<or>
                            p = ''/data/user/0/org.vita3k.emulator/files/driver/turnip''),
      first_word = (\<lambda>p. []),
      libvulkan_handle = 1,
      vulkan_load_library_status = 0\<rparr>"

section \<open>Properties\<close>

subsection \<open>Path algebra\<close>

lemmas path_defs = slash_def append_separator_if_needed_def is_separator_def preferred_separator_def

lemma length_append_separator_if_needed:
  "length p \<le> length (append_separator_if_needed pl p)"
  by (simp add: append_separator_if_needed_def)

lemma slash_empty: "slash pl p [] = p"
  by (simp add: slash_def)

lemma slash_longer: "s \<noteq> [] \<Longrightarrow> length p < length (slash pl p s)"
  using length_append_separator_if_needed [of p pl]
  by (cases s) (auto simp add: slash_def)


lemma slash_neq: "s \<noteq> [] \<Longrightarrow> slash pl p s \<noteq> p"
  using slash_longer [of s p pl] by auto


lemma fs_neq_cache: "slash pl p ''fs'' \<noteq> slash pl p ''cache''"
  by (simp add: slash_def is_separator_def)

lemma vita_neq_cache: "slash pl p ''vita/'' \<noteq> slash pl p ''cache''"
  by (simp add: slash_def is_separator_def)

subsection \<open>C1: the portable directory\<close>

lemma portable_path_getenv: "portable_path pl (h\<lparr>getenv := g\<rparr>) = portable_path pl h"
  by (simp add: portable_path_def)

lemma resolve_portable:
  assumes "pl \<noteq> Android" and "fs_is_directory h (portable_path pl h)"
  shows "resolve_paths pl h root_paths =
           root_paths
             \<lparr>base_path := sdl_base_path h,
              static_assets_path := sdl_base_path h,
              pref_path := slash pl (slash pl (portable_path pl h) ''fs'') '''',
              log_path := portable_path pl h,
              config_path := portable_path pl h,
              shared_path := portable_path pl h,
              cache_path := slash pl (slash pl (portable_path pl h) ''cache'') ''''\<rparr>"
  using assms by (simp add: resolve_paths_def init_paths_portable_def)

text \<open>
  Claim C1, as the code has it. On a desktop target (Linux, Apple, Windows) whose
  candidate portable directory exists, \<^verbatim>\<open>init_paths\<close> roots the preference, log, config,
  shared and cache paths under the portable directory: preference is
  \<^verbatim>\<open>portable/fs\<close>, log, config and shared are the portable directory itself, cache is
  \<^verbatim>\<open>portable/cache\<close>. The base path and the static-assets path stay the directory of
  the executable. No environment variable changes any of the seven paths: the result
  is the same for every \<^verbatim>\<open>getenv\<close>.
\<close>

theorem portable_roots:
  assumes "pl \<noteq> Android" and "fs_is_directory h (portable_path pl h)"
  shows "fst (init_paths pl (h\<lparr>getenv := g\<rparr>) root_paths) =
           root_paths
             \<lparr>base_path := sdl_base_path h,
              static_assets_path := sdl_base_path h,
              pref_path := slash pl (slash pl (portable_path pl h) ''fs'') '''',
              log_path := portable_path pl h,
              config_path := portable_path pl h,
              shared_path := portable_path pl h,
              cache_path := slash pl (slash pl (portable_path pl h) ''cache'') ''''\<rparr>"
proof -
  have "fs_is_directory (h\<lparr>getenv := g\<rparr>) (portable_path pl (h\<lparr>getenv := g\<rparr>))"
    using assms(2) by (simp add: portable_path_getenv)
  from resolve_portable [OF assms(1) this, of root_paths] show ?thesis
    by (simp add: init_paths_def portable_path_getenv Let_def)
qed

lemma portable_linux_host_portable:
  "portable_path Linux portable_linux_host = ''/opt/vita3k/portable''"
  by (simp add: portable_path_def portable_linux_host_def path_defs)

text \<open>
  The Linux installation of \<open>portable_linux_host\<close>, with every environment variable set.
\<close>

theorem portable_roots_witness:
  "fst (init_paths Linux (portable_linux_host\<lparr>getenv := (\<lambda>v. Some ''/elsewhere'')\<rparr>) empty_root) =
     \<lparr>base_path = ''/opt/vita3k/'',
      static_assets_path = ''/opt/vita3k/'',
      pref_path = ''/opt/vita3k/portable/fs'',
      log_path = ''/opt/vita3k/portable'',
      config_path = ''/opt/vita3k/portable'',
      shared_path = ''/opt/vita3k/portable'',
      cache_path = ''/opt/vita3k/portable/cache''\<rparr>"
proof -
  have a: "Linux \<noteq> Android" by simp
  have d: "fs_is_directory portable_linux_host (portable_path Linux portable_linux_host)"
    by (simp add: portable_linux_host_portable) (simp add: portable_linux_host_def)
  from portable_roots [OF a d, of "\<lambda>v. Some ''/elsewhere''" empty_root] show ?thesis
    by (simp add: portable_linux_host_portable empty_root_def path_defs)
       (simp add: portable_linux_host_def)
qed

text \<open>
  Claim C1 as stated fails: with a portable directory in \<^verbatim>\<open>/opt/vita3k/portable\<close> the base
  path and the static-assets path are \<^verbatim>\<open>/opt/vita3k/\<close>, which does not lie under the
  portable directory, and the cache path is \<^verbatim>\<open>portable/cache\<close>, not the portable root.
\<close>

theorem portable_roots_counterexample:
  "fs_is_directory portable_linux_host (portable_path Linux portable_linux_host) \<and>
   base_path (fst (init_paths Linux portable_linux_host empty_root)) = ''/opt/vita3k/'' \<and>
   static_assets_path (fst (init_paths Linux portable_linux_host empty_root)) = ''/opt/vita3k/'' \<and>
   \<not> prefix (portable_path Linux portable_linux_host)
       (base_path (fst (init_paths Linux portable_linux_host empty_root))) \<and>
   \<not> prefix (portable_path Linux portable_linux_host)
       (static_assets_path (fst (init_paths Linux portable_linux_host empty_root))) \<and>
   cache_path (fst (init_paths Linux portable_linux_host empty_root)) \<noteq>
     portable_path Linux portable_linux_host"
proof -
  have d: "fs_is_directory portable_linux_host ''/opt/vita3k/portable''"
    by (simp add: portable_linux_host_def)
  have b: "sdl_base_path portable_linux_host = ''/opt/vita3k/''"
    by (simp add: portable_linux_host_def)
  show ?thesis
    by (simp add: init_paths_def resolve_paths_def init_paths_portable_def
        portable_linux_host_portable d b path_defs)
qed

subsection \<open>C2: the preference path against the other paths\<close>

lemma slash_plain:
  "s \<noteq> [] \<Longrightarrow> \<not> is_separator pl (hd s) \<Longrightarrow> slash pl p s = append_separator_if_needed pl p @ s"
  by (simp add: slash_def)




lemma append_neq_self: "s \<noteq> [] \<Longrightarrow> x @ s \<noteq> x" "s \<noteq> [] \<Longrightarrow> x \<noteq> x @ s"
  by auto











text \<open>
  The XDG block one statement at a time: \<open>r1\<close> to \<open>r8\<close> are the values of
  \<^verbatim>\<open>root_paths\<close> after each of its eight statements.
\<close>

lemma xdg_fields:
  "base_path (init_paths_xdg h r0) = base_path r0"
  "pref_path (init_paths_xdg h r0) =
     (case getenv h ''XDG_DATA_HOME'' of
        Some d \<Rightarrow> slash Linux (slash Linux d app_name) app_name
      | None \<Rightarrow> pref_path r0)"
  "config_path (init_paths_xdg h r0) =
     (case getenv h ''XDG_CONFIG_HOME'' of
        Some c \<Rightarrow> slash Linux c app_name
      | None \<Rightarrow>
          (case getenv h ''HOME'' of
             Some hm \<Rightarrow> slash Linux (slash Linux hm ''.config'') app_name
           | None \<Rightarrow> config_path r0))"
  "cache_path (init_paths_xdg h r0) =
     (case getenv h ''XDG_CACHE_HOME'' of
        Some c \<Rightarrow> slash Linux c app_name
      | None \<Rightarrow>
          (case getenv h ''HOME'' of
             Some hm \<Rightarrow> slash Linux (slash Linux hm ''.cache'') app_name
           | None \<Rightarrow> cache_path r0))"
  "log_path (init_paths_xdg h r0) =
     (case getenv h ''XDG_CACHE_HOME'' of
        Some c \<Rightarrow> slash Linux c app_name
      | None \<Rightarrow>
          (case getenv h ''HOME'' of
             Some hm \<Rightarrow> slash Linux (slash Linux hm ''.cache'') app_name
           | None \<Rightarrow> log_path r0))"
  "shared_path (init_paths_xdg h r0) =
     (case chosen_data_dir h of
        Some i \<Rightarrow> slash Linux i app_name
      | None \<Rightarrow>
          (case (getenv h ''XDG_DATA_DIRS'', getenv h ''XDG_DATA_HOME'') of
             (None, Some d) \<Rightarrow> slash Linux d app_name
           | _ \<Rightarrow>
               (case getenv h ''HOME'' of
                  Some hm \<Rightarrow> slash Linux (slash Linux hm ''.local/share'') app_name
                | None \<Rightarrow> shared_path r0)))"
  "static_assets_path (init_paths_xdg h r0) \<in>
     {static_assets_path r0, base_path r0} \<union>
     (case getenv h ''HOME'' of
        Some hm \<Rightarrow> {slash Linux (slash Linux hm ''.local/share'') app_name} | None \<Rightarrow> {}) \<union>
     (case chosen_data_dir h of Some i \<Rightarrow> {slash Linux i app_name} | None \<Rightarrow> {}) \<union>
     (case getenv h ''XDG_DATA_HOME'' of Some d \<Rightarrow> {slash Linux d app_name} | None \<Rightarrow> {}) \<union>
     (case getenv h ''APPDIR'' of Some a \<Rightarrow> {slash Linux a ''usr/share/Vita3K''} | None \<Rightarrow> {})"
proof -
  define sl where "sl = slash Linux"
  define r1 where "r1 = (case getenv h ''XDG_DATA_HOME'' of
                  Some d \<Rightarrow> r0\<lparr>pref_path := sl (sl (sl d app_name) app_name) ''''\<rparr>
                | None \<Rightarrow> r0)"
  define r2 where "r2 = (case getenv h ''XDG_CONFIG_HOME'' of
                  Some c \<Rightarrow> r1\<lparr>config_path := sl (sl c app_name) ''''\<rparr>
                | None \<Rightarrow>
                    (case getenv h ''HOME'' of
                       Some hm \<Rightarrow> r1\<lparr>config_path := sl (sl (sl hm ''.config'') app_name) ''''\<rparr>
                     | None \<Rightarrow> r1))"
  define r3 where "r3 = (case getenv h ''XDG_CACHE_HOME'' of
                  Some c \<Rightarrow> r2\<lparr>cache_path := sl (sl c app_name) '''',
                              log_path := sl (sl c app_name) ''''\<rparr>
                | None \<Rightarrow>
                    (case getenv h ''HOME'' of
                       Some hm \<Rightarrow> r2\<lparr>cache_path := sl (sl (sl hm ''.cache'') app_name) '''',
                                    log_path := sl (sl (sl hm ''.cache'') app_name) ''''\<rparr>
                     | None \<Rightarrow> r2))"
  define r4 where "r4 = (if fs_exists h (sl (base_path r3) ''data'') \<and>
                   fs_exists h (sl (base_path r3) ''lang'') \<and>
                   fs_exists h (sl (base_path r3) ''shaders-builtin'')
                then r3\<lparr>static_assets_path := base_path r3\<rparr>
                else (case getenv h ''HOME'' of
                        Some hm \<Rightarrow>
                          r3\<lparr>static_assets_path := sl (sl (sl hm ''.local/share'') app_name) ''''\<rparr>
                      | None \<Rightarrow> r3))"
  define r5 where "r5 = (case getenv h ''XDG_DATA_DIRS'' of
                  Some dirs \<Rightarrow>
                    (case first_data_dir h (split_string dirs CHR '':'') of
                       Some i \<Rightarrow> r4\<lparr>static_assets_path := sl (sl i app_name) ''''\<rparr>
                     | None \<Rightarrow> r4)
                | None \<Rightarrow>
                    (case getenv h ''XDG_DATA_HOME'' of
                       Some d \<Rightarrow>
                         if fs_exists h (sl (sl d app_name) ''data'') \<and>
                            fs_exists h (sl (sl d app_name) ''lang'') \<and>
                            fs_exists h (sl (sl d app_name) ''shaders-builtin'')
                         then r4\<lparr>static_assets_path := sl (sl d app_name) ''''\<rparr>
                         else r4
                     | None \<Rightarrow> r4))"
  define r6 where "r6 = (case getenv h ''APPDIR'' of
                  Some a \<Rightarrow>
                    if fs_exists h (sl a ''usr/share/Vita3K'')
                    then r5\<lparr>static_assets_path := sl a ''usr/share/Vita3K''\<rparr>
                    else r5
                | None \<Rightarrow> r5)"
  define r7 where "r7 = (case getenv h ''HOME'' of
                  Some hm \<Rightarrow> r6\<lparr>shared_path := sl (sl (sl hm ''.local/share'') app_name) ''''\<rparr>
                | None \<Rightarrow> r6)"
  define r8 where "r8 = (case getenv h ''XDG_DATA_DIRS'' of
                  Some dirs \<Rightarrow>
                    (case first_data_dir h (split_string dirs CHR '':'') of
                       Some i \<Rightarrow> r7\<lparr>shared_path := sl (sl i app_name) ''''\<rparr>
                     | None \<Rightarrow> r7)
                | None \<Rightarrow>
                    (case getenv h ''XDG_DATA_HOME'' of
                       Some d \<Rightarrow> r7\<lparr>shared_path := sl (sl d app_name) ''''\<rparr>
                     | None \<Rightarrow> r7))"
  have e: "init_paths_xdg h r0 = r8"
    unfolding init_paths_xdg_def r8_def r7_def r6_def r5_def r4_def r3_def r2_def r1_def
      sl_def Let_def
    by (rule refl)
  have s: "sl p [] = p" for p by (simp add: sl_def slash_empty)
  have b1: "base_path r1 = base_path r0" by (simp add: r1_def split: option.splits)
  have b2: "base_path r2 = base_path r0" by (simp add: r2_def b1 split: option.splits)
  have b3: "base_path r3 = base_path r0" by (simp add: r3_def b2 split: option.splits)
  have b4: "base_path r4 = base_path r0" by (simp add: r4_def b3 split: option.splits)
  have b5: "base_path r5 = base_path r0" by (simp add: r5_def b4 split: option.splits)
  have b6: "base_path r6 = base_path r0" by (simp add: r6_def b5 split: option.splits)
  have b7: "base_path r7 = base_path r0" by (simp add: r7_def b6 split: option.splits)
  have b8: "base_path r8 = base_path r0" by (simp add: r8_def b7 split: option.splits)
  show "base_path (init_paths_xdg h r0) = base_path r0" by (simp add: e b8)
  have p1: "pref_path r1 = (case getenv h ''XDG_DATA_HOME'' of
        Some d \<Rightarrow> slash Linux (slash Linux d app_name) app_name
      | None \<Rightarrow> pref_path r0)"
    by (simp add: r1_def s split: option.splits) (simp add: sl_def)
  have p2: "pref_path r2 = pref_path r1" by (simp add: r2_def split: option.splits)
  have p3: "pref_path r3 = pref_path r2" by (simp add: r3_def split: option.splits)
  have p4: "pref_path r4 = pref_path r3" by (simp add: r4_def split: option.splits)
  have p5: "pref_path r5 = pref_path r4" by (simp add: r5_def split: option.splits)
  have p6: "pref_path r6 = pref_path r5" by (simp add: r6_def split: option.splits)
  have p7: "pref_path r7 = pref_path r6" by (simp add: r7_def split: option.splits)
  have p8: "pref_path r8 = pref_path r7" by (simp add: r8_def split: option.splits)
  show "pref_path (init_paths_xdg h r0) =
     (case getenv h ''XDG_DATA_HOME'' of
        Some d \<Rightarrow> slash Linux (slash Linux d app_name) app_name
      | None \<Rightarrow> pref_path r0)"
    by (simp only: e p8 p7 p6 p5 p4 p3 p2 p1)
  have c1: "config_path r1 = config_path r0" by (simp add: r1_def split: option.splits)
  have c2: "config_path r2 = (case getenv h ''XDG_CONFIG_HOME'' of
        Some c \<Rightarrow> slash Linux c app_name
      | None \<Rightarrow>
          (case getenv h ''HOME'' of
             Some hm \<Rightarrow> slash Linux (slash Linux hm ''.config'') app_name
           | None \<Rightarrow> config_path r0))"
    by (simp add: r2_def s c1 split: option.splits) (simp add: sl_def)
  have c3: "config_path r3 = config_path r2" by (simp add: r3_def split: option.splits)
  have c4: "config_path r4 = config_path r3" by (simp add: r4_def split: option.splits)
  have c5: "config_path r5 = config_path r4" by (simp add: r5_def split: option.splits)
  have c6: "config_path r6 = config_path r5" by (simp add: r6_def split: option.splits)
  have c7: "config_path r7 = config_path r6" by (simp add: r7_def split: option.splits)
  have c8: "config_path r8 = config_path r7" by (simp add: r8_def split: option.splits)
  show "config_path (init_paths_xdg h r0) =
     (case getenv h ''XDG_CONFIG_HOME'' of
        Some c \<Rightarrow> slash Linux c app_name
      | None \<Rightarrow>
          (case getenv h ''HOME'' of
             Some hm \<Rightarrow> slash Linux (slash Linux hm ''.config'') app_name
           | None \<Rightarrow> config_path r0))"
    by (simp only: e c8 c7 c6 c5 c4 c3 c2)
  have k1: "cache_path r1 = cache_path r0" "log_path r1 = log_path r0"
    by (simp_all add: r1_def split: option.splits)
  have k2: "cache_path r2 = cache_path r0" "log_path r2 = log_path r0"
    by (simp_all add: r2_def k1 split: option.splits)
  have k3: "cache_path r3 = (case getenv h ''XDG_CACHE_HOME'' of
        Some c \<Rightarrow> slash Linux c app_name
      | None \<Rightarrow>
          (case getenv h ''HOME'' of
             Some hm \<Rightarrow> slash Linux (slash Linux hm ''.cache'') app_name
           | None \<Rightarrow> cache_path r0))"
    "log_path r3 = (case getenv h ''XDG_CACHE_HOME'' of
        Some c \<Rightarrow> slash Linux c app_name
      | None \<Rightarrow>
          (case getenv h ''HOME'' of
             Some hm \<Rightarrow> slash Linux (slash Linux hm ''.cache'') app_name
           | None \<Rightarrow> log_path r0))"
    by (simp_all add: r3_def s k2 split: option.splits) (simp_all add: sl_def)
  have k4: "cache_path r4 = cache_path r3" "log_path r4 = log_path r3"
    by (simp_all add: r4_def split: option.splits)
  have k5: "cache_path r5 = cache_path r4" "log_path r5 = log_path r4"
    by (simp_all add: r5_def split: option.splits)
  have k6: "cache_path r6 = cache_path r5" "log_path r6 = log_path r5"
    by (simp_all add: r6_def split: option.splits)
  have k7: "cache_path r7 = cache_path r6" "log_path r7 = log_path r6"
    by (simp_all add: r7_def split: option.splits)
  have k8: "cache_path r8 = cache_path r7" "log_path r8 = log_path r7"
    by (simp_all add: r8_def split: option.splits)
  show "cache_path (init_paths_xdg h r0) =
     (case getenv h ''XDG_CACHE_HOME'' of
        Some c \<Rightarrow> slash Linux c app_name
      | None \<Rightarrow>
          (case getenv h ''HOME'' of
             Some hm \<Rightarrow> slash Linux (slash Linux hm ''.cache'') app_name
           | None \<Rightarrow> cache_path r0))"
    by (simp only: e k8 k7 k6 k5 k4 k3)
  show "log_path (init_paths_xdg h r0) =
     (case getenv h ''XDG_CACHE_HOME'' of
        Some c \<Rightarrow> slash Linux c app_name
      | None \<Rightarrow>
          (case getenv h ''HOME'' of
             Some hm \<Rightarrow> slash Linux (slash Linux hm ''.cache'') app_name
           | None \<Rightarrow> log_path r0))"
    by (simp only: e k8 k7 k6 k5 k4 k3)
  have h1: "shared_path r1 = shared_path r0" by (simp add: r1_def split: option.splits)
  have h2: "shared_path r2 = shared_path r0" by (simp add: r2_def h1 split: option.splits)
  have h3: "shared_path r3 = shared_path r0" by (simp add: r3_def h2 split: option.splits)
  have h4: "shared_path r4 = shared_path r0" by (simp add: r4_def h3 split: option.splits)
  have h5: "shared_path r5 = shared_path r0" by (simp add: r5_def h4 split: option.splits)
  have h6: "shared_path r6 = shared_path r0" by (simp add: r6_def h5 split: option.splits)
  have h7: "shared_path r7 = (case getenv h ''HOME'' of
                  Some hm \<Rightarrow> slash Linux (slash Linux hm ''.local/share'') app_name
                | None \<Rightarrow> shared_path r0)"
    by (simp add: r7_def s h6 split: option.splits) (simp add: sl_def)
  show "shared_path (init_paths_xdg h r0) =
     (case chosen_data_dir h of
        Some i \<Rightarrow> slash Linux i app_name
      | None \<Rightarrow>
          (case (getenv h ''XDG_DATA_DIRS'', getenv h ''XDG_DATA_HOME'') of
             (None, Some d) \<Rightarrow> slash Linux d app_name
           | _ \<Rightarrow>
               (case getenv h ''HOME'' of
                  Some hm \<Rightarrow> slash Linux (slash Linux hm ''.local/share'') app_name
                | None \<Rightarrow> shared_path r0)))"
    by (simp add: e r8_def s h7 chosen_data_dir_def split: option.splits) (simp add: sl_def)
  have t1: "static_assets_path r1 = static_assets_path r0"
    by (simp add: r1_def split: option.splits)
  have t2: "static_assets_path r2 = static_assets_path r0"
    by (simp add: r2_def t1 split: option.splits)
  have t3: "static_assets_path r3 = static_assets_path r0"
    by (simp add: r3_def t2 split: option.splits)
  let ?S = "{static_assets_path r0, base_path r0} \<union>
     (case getenv h ''HOME'' of
        Some hm \<Rightarrow> {slash Linux (slash Linux hm ''.local/share'') app_name} | None \<Rightarrow> {}) \<union>
     (case chosen_data_dir h of Some i \<Rightarrow> {slash Linux i app_name} | None \<Rightarrow> {}) \<union>
     (case getenv h ''XDG_DATA_HOME'' of Some d \<Rightarrow> {slash Linux d app_name} | None \<Rightarrow> {}) \<union>
     (case getenv h ''APPDIR'' of Some a \<Rightarrow> {slash Linux a ''usr/share/Vita3K''} | None \<Rightarrow> {})"
  have t4: "static_assets_path r4 \<in> ?S"
    by (simp add: r4_def s t3 b3 split: option.splits) (simp add: sl_def)
  have t5: "static_assets_path r5 \<in> ?S"
    using t4 by (simp add: r5_def s chosen_data_dir_def split: option.splits) (auto simp add: sl_def)
  have t6: "static_assets_path r6 \<in> ?S"
    using t5 by (simp add: r6_def s split: option.splits) (auto simp add: sl_def)
  have t7: "static_assets_path r7 = static_assets_path r6"
    by (simp add: r7_def split: option.splits)
  have t8: "static_assets_path r8 = static_assets_path r7"
    by (simp add: r8_def split: option.splits)
  show "static_assets_path (init_paths_xdg h r0) \<in> ?S"
    using t6 by (simp only: e t8 t7)
qed

lemma resolve_linux_user:
  assumes "\<not> fs_is_directory h (portable_path Linux h)"
  shows "resolve_paths Linux h root_paths =
     init_paths_xdg h
       (root_paths\<lparr>base_path := sdl_base_path h,
                   static_assets_path := sdl_base_path h,
                   pref_path := sdl_pref_path h,
                   log_path := sdl_base_path h,
                   config_path := sdl_base_path h,
                   shared_path := sdl_base_path h,
                   cache_path := slash Linux (sdl_base_path h) ''cache''\<rparr>)"
  using assms by (simp add: resolve_paths_def init_paths_user_def Let_def slash_empty)




lemma android_host_storage:
  "android_external_storage_path android_host =
     ''/storage/emulated/0/Android/data/org.vita3k.emulator/files''"
  by (simp add: android_host_def)



text \<open>
  The Linux branch can make the paths coincide too: with \<^verbatim>\<open>XDG_DATA_HOME=/d\<close> and
  \<^verbatim>\<open>XDG_CACHE_HOME=/d/Vita3K\<close> the preference, cache and log paths are all
  \<^verbatim>\<open>/d/Vita3K/Vita3K\<close>.
\<close>

lemma xdg_pref_equals_cache:
  "pref_path (fst (init_paths Linux xdg_linux_host empty_root)) = ''/d/Vita3K/Vita3K'' \<and>
   cache_path (fst (init_paths Linux xdg_linux_host empty_root)) = ''/d/Vita3K/Vita3K'' \<and>
   log_path (fst (init_paths Linux xdg_linux_host empty_root)) = ''/d/Vita3K/Vita3K''"
proof -
  have np: "\<not> fs_is_directory xdg_linux_host (portable_path Linux xdg_linux_host)"
    by (simp add: xdg_linux_host_def)
  have g: "getenv xdg_linux_host ''XDG_DATA_HOME'' = Some ''/d''"
    "getenv xdg_linux_host ''XDG_CACHE_HOME'' = Some ''/d/Vita3K''"
    by (simp_all add: xdg_linux_host_def)
  show ?thesis
    by (simp add: init_paths_def Let_def resolve_linux_user [OF np] xdg_fields g app_name_def
        path_defs)
qed

subsection \<open>C4: the degenerate viewport\<close>

text \<open>
  Claim C4. When the drawable height is not positive, \<^verbatim>\<open>update_viewport\<close> sets the
  viewport position to (0, 0) and the viewport size to (0, 0), whatever the stretch
  flag is and whatever the float arithmetic does.
\<close>

theorem viewport_degenerate:
  assumes "snd (fst (get_drawable_size sub (renderer_current_backend state))) \<le> 0"
  shows "viewport_pos (fst (update_viewport fo sub
             (state\<lparr>cfg := (cfg state)\<lparr>stretch_the_display_area := stretch\<rparr>\<rparr>))) =
           (f_of_int fo 0, f_of_int fo 0) \<and>
         viewport_size (fst (update_viewport fo sub
             (state\<lparr>cfg := (cfg state)\<lparr>stretch_the_display_area := stretch\<rparr>\<rparr>))) =
           (f_of_int fo 0, f_of_int fo 0)"
  using assms by (auto simp add: update_viewport_def Let_def split: prod.splits)

text \<open>
  A minimised window: drawable size 800 by 0, with the stretch flag set.
\<close>

theorem viewport_degenerate_witness:
  "get_drawable_size example_subsystems (renderer_current_backend example_state) = ((800, 0), []) \<and>
   viewport_pos (fst (update_viewport exact_ops example_subsystems
       (example_state\<lparr>cfg := (cfg example_state)\<lparr>stretch_the_display_area := True\<rparr>\<rparr>))) = (0, 0) \<and>
   viewport_size (fst (update_viewport exact_ops example_subsystems
       (example_state\<lparr>cfg := (cfg example_state)\<lparr>stretch_the_display_area := True\<rparr>\<rparr>))) = (0, 0)"
proof -
  have g: "get_drawable_size example_subsystems (renderer_current_backend example_state) =
      ((800, 0), [])"
    by (simp add: get_drawable_size_def example_subsystems_def example_state_def)
  then have h: "snd (fst (get_drawable_size example_subsystems
      (renderer_current_backend example_state))) \<le> 0" by simp
  from viewport_degenerate [OF h, of exact_ops True] g show ?thesis
    by (simp add: exact_ops_def)
qed

subsection \<open>C6: a driver directory without manifest\<close>

text \<open>
  Claim C6. When the driver directory exists and holds no \<^verbatim>\<open>driver_name.txt\<close>,
  \<^verbatim>\<open>load_custom_driver\<close> returns false after logging that the manifest was not found,
  and \<^verbatim>\<open>adrenotools_open_libvulkan\<close> is not called, with any arguments.
\<close>

theorem manifest_missing:
  assumes "device_exists dev (driver_dir dev driver_name)"
    and "\<not> device_exists dev (slash Android (driver_dir dev driver_name) ''driver_name.txt'')"
  shows "load_custom_driver dev driver_name =
           (False, [LogError ''Could not find driver driver_name.txt'' []]) \<and>
         (\<forall>temp_dir lib_dir driver_path main_so_name file_redirect.
            OpenLibvulkan temp_dir lib_dir driver_path main_so_name file_redirect \<notin>
              set (snd (load_custom_driver dev driver_name)))"
  using assms by (simp add: load_custom_driver_def Let_def)

lemma example_driver_dir:
  "driver_dir example_device ''turnip'' = ''/data/user/0/org.vita3k.emulator/files/driver/turnip/''"
  by (simp add: driver_dir_def example_device_def path_defs)

text \<open>
  The device of \<open>example_device\<close>, whose \<^verbatim>\<open>turnip\<close> directory is empty.
\<close>

theorem manifest_missing_witness:
  "load_custom_driver example_device ''turnip'' =
     (False, [LogError ''Could not find driver driver_name.txt'' []]) \<and>
   (\<forall>temp_dir lib_dir driver_path main_so_name file_redirect.
      OpenLibvulkan temp_dir lib_dir driver_path main_so_name file_redirect \<notin>
        set (snd (load_custom_driver example_device ''turnip'')))"
proof -
  have a: "device_exists example_device (driver_dir example_device ''turnip'')"
    by (simp add: example_driver_dir) (simp add: example_device_def)
  have b: "\<not> device_exists example_device
      (slash Android (driver_dir example_device ''turnip'') ''driver_name.txt'')"
    by (simp add: example_driver_dir path_defs) (simp add: example_device_def)
  from manifest_missing [OF a b] show ?thesis .
qed

subsection \<open>C7: audio and ngs failures in late initialisation\<close>

text \<open>
  Claim C7. \<^verbatim>\<open>late_init\<close> succeeds exactly when the memory initialisation and the ngs
  initialisation succeed: the outcome of the audio initialisation plays no part. When
  the audio initialisation fails and \<^verbatim>\<open>late_init\<close> succeeds, the warning is in the
  log. When the ngs initialisation fails, \<^verbatim>\<open>late_init\<close> fails.
\<close>

theorem audio_failure_nonfatal:
  "fst (late_init sub state) =
     (mem_init sub (late_mapping_method sub = PageTable \<or> late_mapping_method sub = NativeBuffer)
        \<noteq> None \<and> ngs_init_ok sub) \<and>
   (\<not> audio_init_ok sub \<and> fst (late_init sub state) \<longrightarrow>
      LogWarn ''Failed to initialize audio! Audio will not work.'' \<in>
        set (snd (snd (late_init sub state)))) \<and>
   (\<not> ngs_init_ok sub \<longrightarrow> \<not> fst (late_init sub state))"
  by (simp add: late_init_def Let_def split: option.splits)

text \<open>
  Subsystems whose audio does not start; then the same with ngs failing.
\<close>

theorem audio_failure_nonfatal_witness:
  "\<not> audio_init_ok example_subsystems \<and>
   fst (late_init example_subsystems example_state) \<and>
   LogWarn ''Failed to initialize audio! Audio will not work.'' \<in>
     set (snd (snd (late_init example_subsystems example_state))) \<and>
   \<not> fst (late_init (example_subsystems\<lparr>ngs_init_ok := False\<rparr>) example_state)"
proof -
  have a: "\<not> audio_init_ok example_subsystems" "ngs_init_ok example_subsystems"
    "late_mapping_method example_subsystems = NativeBuffer"
    "mem_init example_subsystems True = Some True"
    by (simp_all add: example_subsystems_def)
  from audio_failure_nonfatal [of example_subsystems example_state]
    audio_failure_nonfatal [of "example_subsystems\<lparr>ngs_init_ok := False\<rparr>" example_state] a
  show ?thesis by simp
qed

subsection \<open>C10: the page-table flag of the memory initialisation\<close>

text \<open>
  Claim C10. The memory initialisation is called with \<^verbatim>\<open>need_page_table\<close> true exactly
  when the mapping method of the renderer after its \<^verbatim>\<open>late_init\<close> is \<^verbatim>\<open>PageTable\<close> or
  \<^verbatim>\<open>NativeBuffer\<close>; among the three methods this is every method but \<^verbatim>\<open>Direct\<close>.
\<close>

theorem need_page_table_flag:
  "(\<forall>b. (MemInit b \<in> set (snd (snd (late_init sub state)))) =
         (b = (late_mapping_method sub = PageTable \<or> late_mapping_method sub = NativeBuffer))) \<and>
   (late_mapping_method sub = PageTable \<or> late_mapping_method sub = NativeBuffer) =
     (late_mapping_method sub \<noteq> Direct)"
proof -
  have "(late_mapping_method sub = PageTable \<or> late_mapping_method sub = NativeBuffer) =
     (late_mapping_method sub \<noteq> Direct)"
    by (cases "late_mapping_method sub") simp_all
  moreover have "\<forall>b. (MemInit b \<in> set (snd (snd (late_init sub state)))) =
         (b = (late_mapping_method sub = PageTable \<or> late_mapping_method sub = NativeBuffer))"
    by (auto simp add: late_init_def Let_def split: option.splits)
  ultimately show ?thesis by blast
qed

text \<open>
  The native-buffer method asks for the page table, the direct method does not.
\<close>

theorem need_page_table_flag_witness:
  "late_mapping_method example_subsystems = NativeBuffer \<and>
   MemInit True \<in> set (snd (snd (late_init example_subsystems example_state))) \<and>
   MemInit False \<notin> set (snd (snd (late_init example_subsystems example_state))) \<and>
   MemInit False \<in> set (snd (snd (late_init
       (example_subsystems\<lparr>late_mapping_method := Direct\<rparr>) example_state)))"
proof -
  have a: "late_mapping_method example_subsystems = NativeBuffer"
    by (simp add: example_subsystems_def)
  from need_page_table_flag [of example_subsystems example_state]
    need_page_table_flag [of "example_subsystems\<lparr>late_mapping_method := Direct\<rparr>" example_state] a
  show ?thesis by simp
qed

subsection \<open>C3: the aspect ratio of the viewport\<close>

lemma square_le_self:
  fixes u :: real
  assumes "0 \<le> u" and "u \<le> 1 / 4"
  shows "u * u \<le> u"
proof -
  have "u * u \<le> u * 1" using assms by (intro mult_left_mono) auto
  then show ?thesis by simp
qed

lemma wide_bound:
  fixes a u H va X :: real
  assumes u: "0 \<le> u" "u \<le> 1 / 4" and a: "0 < a"
    and va: "\<bar>va - a\<bar> \<le> u * a"
    and X: "\<bar>X - H * va\<bar> \<le> u * \<bar>H * va\<bar>"
  shows "\<bar>X - a * H\<bar> \<le> 3 * u * \<bar>a * H\<bar>"
proof -
  have ua: "0 \<le> u * a" using u a by simp
  have va': "\<bar>va\<bar> \<le> a + u * a" using va ua a by linarith
  have hva: "\<bar>H * va\<bar> \<le> \<bar>H\<bar> * (a + u * a)"
    using va' by (simp add: abs_mult mult_left_mono)
  have "X - a * H = (X - H * va) + H * (va - a)" by (simp add: algebra_simps)
  then have "\<bar>X - a * H\<bar> \<le> \<bar>X - H * va\<bar> + \<bar>H * (va - a)\<bar>"
    by (metis abs_triangle_ineq)
  also have "\<dots> \<le> u * \<bar>H * va\<bar> + \<bar>H\<bar> * (u * a)"
    using X va by (simp add: abs_mult add_mono mult_left_mono)
  also have "\<dots> \<le> u * (\<bar>H\<bar> * (a + u * a)) + \<bar>H\<bar> * (u * a)"
    using hva u by (simp add: mult_left_mono)
  also have "\<dots> = (2 * u + u * u) * (a * \<bar>H\<bar>)" by (simp add: algebra_simps)
  also have "\<dots> \<le> (3 * u) * (a * \<bar>H\<bar>)"
  proof (rule mult_right_mono)
    show "2 * u + u * u \<le> 3 * u" using square_le_self [OF u] by simp
    show "0 \<le> a * \<bar>H\<bar>" using a by simp
  qed
  finally show ?thesis using a by (simp add: abs_mult)
qed

lemma tall_bound:
  fixes a u W va Y :: real
  assumes u: "0 \<le> u" "u \<le> 1 / 4" and a: "0 < a"
    and va: "\<bar>va - a\<bar> \<le> u * a"
    and Y: "\<bar>Y - W / va\<bar> \<le> u * \<bar>W / va\<bar>"
  shows "\<bar>W - a * Y\<bar> \<le> 3 * u * \<bar>a * Y\<bar>" and "W \<noteq> 0 \<Longrightarrow> Y \<noteq> 0"
proof -
  define Q where "Q = W / va"
  have ua: "u * a \<le> a / 4" using u a by simp
  have vpos: "0 < va" using va ua a by linarith
  have W: "W = va * Q" using vpos by (simp add: Q_def)
  have Y': "\<bar>Y - Q\<bar> \<le> u * \<bar>Q\<bar>" using Y by (simp add: Q_def)
  have uq: "u * \<bar>Q\<bar> \<le> \<bar>Q\<bar> / 4"
    using mult_right_mono [of u "1 / 4" "\<bar>Q\<bar>"] u by simp
  have q: "\<bar>Q\<bar> \<le> 4 / 3 * \<bar>Y\<bar>" using Y' uq by linarith
  have "W - a * Y = (va - a) * Q + a * (Q - Y)" by (simp add: W algebra_simps)
  then have "\<bar>W - a * Y\<bar> \<le> \<bar>(va - a) * Q\<bar> + \<bar>a * (Q - Y)\<bar>"
    by (metis abs_triangle_ineq)
  also have "\<dots> \<le> (u * a) * \<bar>Q\<bar> + a * (u * \<bar>Q\<bar>)"
  proof (rule add_mono)
    show "\<bar>(va - a) * Q\<bar> \<le> u * a * \<bar>Q\<bar>"
      using va by (simp add: abs_mult mult_right_mono)
    have "\<bar>Q - Y\<bar> \<le> u * \<bar>Q\<bar>" using Y' by (simp add: abs_minus_commute)
    then show "\<bar>a * (Q - Y)\<bar> \<le> a * (u * \<bar>Q\<bar>)"
      using a by (simp add: abs_mult)
  qed
  also have "\<dots> = (2 * u * a) * \<bar>Q\<bar>" by (simp add: algebra_simps)
  also have "\<dots> \<le> (2 * u * a) * (4 / 3 * \<bar>Y\<bar>)"
    using q u a by (intro mult_left_mono) auto
  also have "\<dots> \<le> 3 * u * (a * \<bar>Y\<bar>)"
  proof -
    have "0 \<le> u * (a * \<bar>Y\<bar>)" using u a by simp
    then show ?thesis by (simp add: algebra_simps)
  qed
  finally show "\<bar>W - a * Y\<bar> \<le> 3 * u * \<bar>a * Y\<bar>" using a by (simp add: abs_mult)
  show "Y \<noteq> 0" if "W \<noteq> 0"
  proof
    assume "Y = 0"
    with Y' uq have "Q = 0" by simp
    with W that show False by simp
  qed
qed

lemma quotient_bound:
  fixes a u X Y :: real
  assumes "0 < a" and "Y \<noteq> 0" and "\<bar>X - a * Y\<bar> \<le> 3 * u * \<bar>a * Y\<bar>"
  shows "\<bar>X / Y - a\<bar> \<le> 3 * u * a"
proof -
  have "X / Y - a = (X - a * Y) / Y" using assms(2) by (simp add: field_simps)
  then have "\<bar>X / Y - a\<bar> = \<bar>X - a * Y\<bar> / \<bar>Y\<bar>" by simp
  also have "\<dots> \<le> (3 * u * \<bar>a * Y\<bar>) / \<bar>Y\<bar>"
    using assms(3) by (simp add: divide_right_mono)
  also have "\<dots> = 3 * u * a" using assms(1,2) by (simp add: abs_mult)
  finally show ?thesis .
qed

lemma reference_aspect_pos: "0 < reference_aspect"
  by (simp add: reference_aspect_def DEFAULT_RES_WIDTH_def DEFAULT_RES_HEIGHT_def)

lemma vita_aspect_bound:
  assumes "rounds_within u fo"
  shows "\<bar>vita_aspect fo - reference_aspect\<bar> \<le> u * reference_aspect"
proof -
  have w: "f_of_int fo DEFAULT_RES_WIDTH = real_of_int DEFAULT_RES_WIDTH"
    and h: "f_of_int fo DEFAULT_RES_HEIGHT = real_of_int DEFAULT_RES_HEIGHT"
    using assms by (simp_all add: rounds_within_def DEFAULT_RES_WIDTH_def DEFAULT_RES_HEIGHT_def)
  have "real_of_int DEFAULT_RES_HEIGHT \<noteq> 0" by (simp add: DEFAULT_RES_HEIGHT_def)
  then have "\<bar>f_div fo (real_of_int DEFAULT_RES_WIDTH) (real_of_int DEFAULT_RES_HEIGHT) -
      reference_aspect\<bar> \<le> u * \<bar>reference_aspect\<bar>"
    using assms unfolding rounds_within_def reference_aspect_def by blast
  then show ?thesis
    using reference_aspect_pos by (simp add: vita_aspect_def w h)
qed

lemma update_viewport_branches:
  assumes "get_drawable_size sub (renderer_current_backend state) = ((w, h), ev)"
    and "0 < h" and "\<not> stretch_the_display_area (cfg state)"
  shows "fst (update_viewport fo sub state) =
     (if f_gt fo (f_div fo (f_of_int fo w) (f_of_int fo h)) (vita_aspect fo)
      then state\<lparr>drawable_size := (w, h),
                 viewport_size := (f_mul fo (f_of_int fo h) (vita_aspect fo), f_of_int fo h),
                 viewport_pos :=
                   (f_div fo (f_sub fo (f_of_int fo w)
                      (f_mul fo (f_of_int fo h) (vita_aspect fo))) (f_of_int fo 2),
                    f_of_int fo 0)\<rparr>
      else state\<lparr>drawable_size := (w, h),
                 viewport_size := (f_of_int fo w, f_div fo (f_of_int fo w) (vita_aspect fo)),
                 viewport_pos :=
                   (f_of_int fo 0,
                    f_div fo (f_sub fo (f_of_int fo h)
                      (f_div fo (f_of_int fo w) (vita_aspect fo))) (f_of_int fo 2))\<rparr>)"
  using assms by (simp add: update_viewport_def Let_def)

text \<open>
  Claim C3, as the code has it. For a drawable height above 0 and the stretch flag
  off, \<^verbatim>\<open>update_viewport\<close> takes the branch that the float comparison of
  \<^verbatim>\<open>w / h\<close> with the reference aspect selects, and stores there what the claim
  says, each operation being the float one: height \<^verbatim>\<open>h\<close>, width
  \<^verbatim>\<open>h * aspect\<close>, position \<^verbatim>\<open>((w - width) / 2, 0)\<close> in the wide branch; width
  \<^verbatim>\<open>w\<close>, height \<^verbatim>\<open>w / aspect\<close>, position \<^verbatim>\<open>(0, (h - height) / 2)\<close> otherwise.
  This holds for every float arithmetic.

  Under the standard model of rounding with unit roundoff \<open>u\<close> (at most a quarter;
  \<open>2\<^sup>-\<^sup>2\<^sup>4\<close> for IEEE single precision), the stored width is the reference aspect ratio
  times the stored height within the relative tolerance \<open>3u\<close>. When the drawable
  width is not 0 the stored height is not 0 and width / height is the reference
  aspect ratio within \<open>3u\<close> of it.
\<close>

theorem viewport_aspect:
  assumes size: "get_drawable_size sub (renderer_current_backend state) = ((w, h), ev)"
    and h: "0 < h" and ns: "\<not> stretch_the_display_area (cfg state)"
    and s': "s' = fst (update_viewport fo sub state)"
    and wide: "wide = f_gt fo (f_div fo (f_of_int fo w) (f_of_int fo h)) (vita_aspect fo)"
  shows
    "(wide \<longrightarrow>
        viewport_size s' = (f_mul fo (f_of_int fo h) (vita_aspect fo), f_of_int fo h) \<and>
        viewport_pos s' =
          (f_div fo (f_sub fo (f_of_int fo w) (fst (viewport_size s'))) (f_of_int fo 2),
           f_of_int fo 0)) \<and>
     (\<not> wide \<longrightarrow>
        viewport_size s' = (f_of_int fo w, f_div fo (f_of_int fo w) (vita_aspect fo)) \<and>
        viewport_pos s' =
          (f_of_int fo 0,
           f_div fo (f_sub fo (f_of_int fo h) (snd (viewport_size s'))) (f_of_int fo 2))) \<and>
     (0 \<le> u \<and> u \<le> 1 / 4 \<and> rounds_within u fo \<longrightarrow>
        \<bar>fst (viewport_size s') - reference_aspect * snd (viewport_size s')\<bar>
          \<le> 3 * u * \<bar>reference_aspect * snd (viewport_size s')\<bar> \<and>
        (w \<noteq> 0 \<longrightarrow>
           snd (viewport_size s') \<noteq> 0 \<and>
           \<bar>fst (viewport_size s') / snd (viewport_size s') - reference_aspect\<bar>
             \<le> 3 * u * reference_aspect))"
proof (intro conjI impI)
  note b = update_viewport_branches [OF size h ns, of fo]
  show "viewport_size s' = (f_mul fo (f_of_int fo h) (vita_aspect fo), f_of_int fo h)" if wide
    using that by (simp add: s' b wide)
  show "viewport_pos s' =
          (f_div fo (f_sub fo (f_of_int fo w) (fst (viewport_size s'))) (f_of_int fo 2),
           f_of_int fo 0)" if wide
    using that by (simp add: s' b wide)
  show "viewport_size s' = (f_of_int fo w, f_div fo (f_of_int fo w) (vita_aspect fo))"
    if "\<not> wide"
    using that by (simp add: s' b wide)
  show "viewport_pos s' =
          (f_of_int fo 0,
           f_div fo (f_sub fo (f_of_int fo h) (snd (viewport_size s'))) (f_of_int fo 2))"
    if "\<not> wide"
    using that by (simp add: s' b wide)
next
  assume a: "0 \<le> u \<and> u \<le> 1 / 4 \<and> rounds_within u fo"
  then have u: "0 \<le> u" "u \<le> 1 / 4" and rw: "rounds_within u fo" by auto
  note b = update_viewport_branches [OF size h ns, of fo]
  note va = vita_aspect_bound [OF rw]
  note ap = reference_aspect_pos
  have vpos: "vita_aspect fo \<noteq> 0"
  proof -
    have "u * reference_aspect \<le> reference_aspect / 4"
      using mult_right_mono [of u "1 / 4" reference_aspect] u ap by simp
    with va ap show ?thesis by linarith
  qed
  have conv: "\<bar>f_of_int fo n - real_of_int n\<bar> \<le> u * \<bar>real_of_int n\<bar>" for n
    using rw by (simp add: rounds_within_def)
  have nz: "f_of_int fo n \<noteq> 0" if "n \<noteq> 0" for n
  proof
    assume z: "f_of_int fo n = 0"
    have "u * \<bar>real_of_int n\<bar> \<le> \<bar>real_of_int n\<bar> / 4"
      using mult_right_mono [of u "1 / 4" "\<bar>real_of_int n\<bar>"] u by simp
    with conv [of n] z have "real_of_int n = 0" by simp
    with that show False by simp
  qed
  have bound: "\<bar>fst (viewport_size s') - reference_aspect * snd (viewport_size s')\<bar>
          \<le> 3 * u * \<bar>reference_aspect * snd (viewport_size s')\<bar>"
  proof (cases wide)
    case True
    have "\<bar>f_mul fo (f_of_int fo h) (vita_aspect fo) - f_of_int fo h * vita_aspect fo\<bar>
        \<le> u * \<bar>f_of_int fo h * vita_aspect fo\<bar>"
      using rw by (simp add: rounds_within_def)
    from wide_bound [OF u ap va this] True show ?thesis
      by (simp add: s' b wide)
  next
    case False
    have "\<bar>f_div fo (f_of_int fo w) (vita_aspect fo) - f_of_int fo w / vita_aspect fo\<bar>
        \<le> u * \<bar>f_of_int fo w / vita_aspect fo\<bar>"
      using rw vpos unfolding rounds_within_def by blast
    from tall_bound(1) [OF u ap va this] False show ?thesis
      by (simp add: s' b wide)
  qed
  show "\<bar>fst (viewport_size s') - reference_aspect * snd (viewport_size s')\<bar>
          \<le> 3 * u * \<bar>reference_aspect * snd (viewport_size s')\<bar>"
    by (rule bound)
  have ynz: "snd (viewport_size s') \<noteq> 0" if "w \<noteq> 0"
  proof (cases wide)
    case True
    have "h \<noteq> 0" using h by simp
    from nz [OF this] True show ?thesis by (simp add: s' b wide)
  next
    case False
    have "\<bar>f_div fo (f_of_int fo w) (vita_aspect fo) - f_of_int fo w / vita_aspect fo\<bar>
        \<le> u * \<bar>f_of_int fo w / vita_aspect fo\<bar>"
      using rw vpos unfolding rounds_within_def by blast
    from tall_bound(2) [OF u ap va this nz [OF that]] False show ?thesis
      by (simp add: s' b wide)
  qed
  show "snd (viewport_size s') \<noteq> 0" if "w \<noteq> 0"
    using that by (rule ynz)
  show "\<bar>fst (viewport_size s') / snd (viewport_size s') - reference_aspect\<bar>
             \<le> 3 * u * reference_aspect" if "w \<noteq> 0"
    using quotient_bound [OF ap ynz [OF that] bound] .
qed

lemma exact_ops_rounds: "0 \<le> u \<Longrightarrow> rounds_within u exact_ops"
  by (simp add: rounds_within_def exact_ops_def)

text \<open>
  A drawable of 1920 by 1080 under exact arithmetic: the wide branch, a viewport of
  32400/17 by 1080 at (120/17, 0), whose ratio is the reference one.
\<close>

theorem viewport_aspect_witness:
  "rounds_within (1 / 2 ^ 24) exact_ops \<and>
   viewport_size (fst (update_viewport exact_ops
       (example_subsystems\<lparr>vulkan_drawable_size := (1920, 1080)\<rparr>) example_state)) =
     (32400 / 17, 1080) \<and>
   viewport_pos (fst (update_viewport exact_ops
       (example_subsystems\<lparr>vulkan_drawable_size := (1920, 1080)\<rparr>) example_state)) =
     (120 / 17, 0) \<and>
   \<bar>fst (viewport_size (fst (update_viewport exact_ops
        (example_subsystems\<lparr>vulkan_drawable_size := (1920, 1080)\<rparr>) example_state))) /
     snd (viewport_size (fst (update_viewport exact_ops
        (example_subsystems\<lparr>vulkan_drawable_size := (1920, 1080)\<rparr>) example_state))) -
     reference_aspect\<bar> \<le> 3 * (1 / 2 ^ 24) * reference_aspect"
proof -
  let ?sub = "example_subsystems\<lparr>vulkan_drawable_size := (1920, 1080)\<rparr>"
  have g: "get_drawable_size ?sub (renderer_current_backend example_state) = ((1920, 1080), [])"
    by (simp add: get_drawable_size_def example_state_def)
  have h: "(0::int) < 1080" by simp
  have n: "\<not> stretch_the_display_area (cfg example_state)"
    by (simp add: example_state_def example_cfg_def)
  have r: "rounds_within (1 / 2 ^ 24) exact_ops" by (rule exact_ops_rounds) simp
  have sz: "viewport_size (fst (update_viewport exact_ops ?sub example_state)) =
      (32400 / 17, 1080)"
    and ps: "viewport_pos (fst (update_viewport exact_ops ?sub example_state)) = (120 / 17, 0)"
    by (simp_all add: update_viewport_branches [OF g h n] exact_ops_def vita_aspect_def
        DEFAULT_RES_WIDTH_def DEFAULT_RES_HEIGHT_def)
  have z: "(1920::int) \<noteq> 0" by simp
  from viewport_aspect [OF g h n refl refl, of exact_ops "1 / 2 ^ 24"] r z
  have "\<bar>fst (viewport_size (fst (update_viewport exact_ops ?sub example_state))) /
     snd (viewport_size (fst (update_viewport exact_ops ?sub example_state))) -
     reference_aspect\<bar> \<le> 3 * (1 / 2 ^ 24) * reference_aspect"
    by simp
  with r sz ps show ?thesis by simp
qed

text \<open>
  Claim C3 as stated fails for a drawable of width 0 and height 1080, which has a
  height above 0: the comparison is false, the viewport is 0 by 0, and a viewport
  without height has no ratio of width to height (shown under exact arithmetic, where
  the quotient of the stored values is not the reference aspect ratio).
\<close>

theorem viewport_aspect_counterexample:
  "get_drawable_size (example_subsystems\<lparr>vulkan_drawable_size := (0, 1080)\<rparr>)
       (renderer_current_backend example_state) = ((0, 1080), []) \<and>
   \<not> stretch_the_display_area (cfg example_state) \<and>
   viewport_size (fst (update_viewport exact_ops
       (example_subsystems\<lparr>vulkan_drawable_size := (0, 1080)\<rparr>) example_state)) = (0, 0) \<and>
   fst (viewport_size (fst (update_viewport exact_ops
       (example_subsystems\<lparr>vulkan_drawable_size := (0, 1080)\<rparr>) example_state))) /
     snd (viewport_size (fst (update_viewport exact_ops
       (example_subsystems\<lparr>vulkan_drawable_size := (0, 1080)\<rparr>) example_state))) \<noteq>
     reference_aspect"
proof -
  let ?sub = "example_subsystems\<lparr>vulkan_drawable_size := (0, 1080)\<rparr>"
  have g: "get_drawable_size ?sub (renderer_current_backend example_state) = ((0, 1080), [])"
    by (simp add: get_drawable_size_def example_state_def)
  have n: "\<not> stretch_the_display_area (cfg example_state)"
    by (simp add: example_state_def example_cfg_def)
  have s: "viewport_size (fst (update_viewport exact_ops ?sub example_state)) = (0, 0)"
    by (simp add: update_viewport_branches [OF g _ n] exact_ops_def vita_aspect_def
        DEFAULT_RES_WIDTH_def DEFAULT_RES_HEIGHT_def)
  show ?thesis
    using reference_aspect_pos by (simp add: g n s)
qed

subsection \<open>C5: backend selection\<close>

lemma select_backend_result:
  "backend_renderer (fst (select_backend pl state)) =
     (if toupper (current_config_backend_renderer (cfg state)) = ''OPENGL'' \<and> pl \<noteq> Apple
      then OpenGL else Vulkan)"
  by (simp add: select_backend_def Let_def)

lemma reconcile_request:
  "current_config_backend_renderer (cfg (reconcile_pref_path pl root_paths (seed_paths root_paths state))) =
     current_config_backend_renderer (cfg state)"
  by (simp add: reconcile_pref_path_def seed_paths_def Let_def)

lemma reconcile_config_path:
  "cfg_config_path (cfg (reconcile_pref_path pl root_paths (seed_paths root_paths state))) =
     cfg_config_path (cfg state)"
  by (simp add: reconcile_pref_path_def seed_paths_def Let_def)

lemma reconcile_console:
  "console (cfg (reconcile_pref_path pl root_paths (seed_paths root_paths state))) =
     console (cfg state)"
  by (simp add: reconcile_pref_path_def seed_paths_def Let_def)

lemma update_viewport_keeps:
  "cfg (fst (update_viewport fo sub state)) = cfg state"
  "backend_renderer (fst (update_viewport fo sub state)) = backend_renderer state"
  by (simp_all add: update_viewport_def Let_def case_prod_beta)

lemma init_subsystems_keeps:
  "cfg (fst (snd (init_subsystems pl fo sub state))) = cfg state"
  "backend_renderer (fst (snd (init_subsystems pl fo sub state))) = backend_renderer state"
  by (simp_all add: init_subsystems_def Let_def case_prod_beta update_viewport_keeps
      split: option.splits)

lemma init_subsystems_ok:
  "fst (init_subsystems pl fo sub state) =
     ((console (cfg state) \<or> renderer_init sub (backend_renderer state) \<noteq> None) \<and> io_init_ok sub)"
  by (auto simp add: init_subsystems_def Let_def case_prod_beta split: option.splits)

lemma select_backend_keeps:
  "dpi_scale (fst (select_backend pl state)) = dpi_scale state"
  "console (cfg (fst (select_backend pl state))) = console (cfg state)"
  by (simp_all add: select_backend_def Let_def)

lemma init_backend:
  "backend_renderer (fst (snd (init pl fo dev sub state root_paths))) =
     (if toupper (current_config_backend_renderer (cfg state)) = ''OPENGL'' \<and> pl \<noteq> Apple
      then OpenGL else Vulkan)"
  by (simp add: init_def Let_def case_prod_beta init_subsystems_keeps select_backend_result
      reconcile_request)

lemma select_backend_apple:
  assumes "toupper (current_config_backend_renderer (cfg state)) = ''OPENGL''"
  shows "select_backend Apple state =
           (state\<lparr>backend_renderer := Vulkan,
                   cfg := (cfg state)\<lparr>cfg_backend_renderer := ''Vulkan''\<rparr>\<rparr>,
            [SerializeConfig ((cfg state)\<lparr>cfg_backend_renderer := ''Vulkan''\<rparr>)
               (cfg_config_path (cfg state))])"
  using assms by (simp add: select_backend_def Let_def)

lemma init_cfg:
  "cfg (fst (snd (init pl fo dev sub state root_paths))) =
     cfg (fst (select_backend pl (reconcile_pref_path pl root_paths (seed_paths root_paths state))))"
  by (simp add: init_def Let_def case_prod_beta init_subsystems_keeps)

lemma init_events_backend:
  "set (snd (select_backend pl (reconcile_pref_path pl root_paths (seed_paths root_paths state))))
     \<subseteq> set (snd (snd (init pl fo dev sub state root_paths)))"
  by (auto simp add: init_def Let_def case_prod_beta)

lemma init_ok_desktop:
  assumes "pl \<noteq> Android"
  shows "fst (init pl fo dev sub state root_paths) =
     (create_window_ok sub \<and>
      (console (cfg state) \<or>
       renderer_init sub (backend_renderer (fst (snd (init pl fo dev sub state root_paths)))) \<noteq> None) \<and>
      io_init_ok sub)"
  using assms
  by (auto simp add: init_def Let_def case_prod_beta init_subsystems_ok init_subsystems_keeps
      select_backend_keeps reconcile_console)

text \<open>
  Claim C5. When the configuration asks for OpenGL (in any letter case) on Apple,
  \<^verbatim>\<open>init\<close> selects Vulkan, sets \<^verbatim>\<open>cfg.backend_renderer\<close> to \<^verbatim>\<open>"Vulkan"\<close>, writes that
  configuration to \<^verbatim>\<open>cfg.config_path\<close>, and fails only if the window, the renderer
  or the file system fails. On every other target the same request selects OpenGL.
  Any other request selects Vulkan.
\<close>

theorem backend_selection:
  "(pl = Apple \<and> toupper (current_config_backend_renderer (cfg state)) = ''OPENGL'' \<longrightarrow>
      backend_renderer (fst (snd (init pl fo dev sub state root_paths))) = Vulkan \<and>
      cfg_backend_renderer (cfg (fst (snd (init pl fo dev sub state root_paths)))) = ''Vulkan'' \<and>
      SerializeConfig (cfg (fst (snd (init pl fo dev sub state root_paths))))
          (cfg_config_path (cfg state))
        \<in> set (snd (snd (init pl fo dev sub state root_paths))) \<and>
      fst (init pl fo dev sub state root_paths) =
        (create_window_ok sub \<and>
         (console (cfg state) \<or> renderer_init sub Vulkan \<noteq> None) \<and> io_init_ok sub)) \<and>
   (pl \<noteq> Apple \<and> toupper (current_config_backend_renderer (cfg state)) = ''OPENGL'' \<longrightarrow>
      backend_renderer (fst (snd (init pl fo dev sub state root_paths))) = OpenGL) \<and>
   (toupper (current_config_backend_renderer (cfg state)) \<noteq> ''OPENGL'' \<longrightarrow>
      backend_renderer (fst (snd (init pl fo dev sub state root_paths))) = Vulkan)"
proof (intro conjI impI)
  assume a: "pl = Apple \<and> toupper (current_config_backend_renderer (cfg state)) = ''OPENGL''"
  let ?s1 = "reconcile_pref_path Apple root_paths (seed_paths root_paths state)"
  have r: "toupper (current_config_backend_renderer (cfg ?s1)) = ''OPENGL''"
    using a by (simp add: reconcile_request)
  note sb = select_backend_apple [OF r]
  show b: "backend_renderer (fst (snd (init pl fo dev sub state root_paths))) = Vulkan"
    using a by (simp add: init_backend)
  show "cfg_backend_renderer (cfg (fst (snd (init pl fo dev sub state root_paths)))) = ''Vulkan''"
    using a by (simp add: init_cfg sb)
  show "SerializeConfig (cfg (fst (snd (init pl fo dev sub state root_paths))))
          (cfg_config_path (cfg state))
        \<in> set (snd (snd (init pl fo dev sub state root_paths)))"
    using a init_events_backend [of Apple root_paths state fo dev sub]
    by (simp add: init_cfg sb reconcile_config_path)
  show "fst (init pl fo dev sub state root_paths) =
        (create_window_ok sub \<and>
         (console (cfg state) \<or> renderer_init sub Vulkan \<noteq> None) \<and> io_init_ok sub)"
    using a init_ok_desktop [of pl fo dev sub state root_paths] b by simp
next
  assume "pl \<noteq> Apple \<and> toupper (current_config_backend_renderer (cfg state)) = ''OPENGL''"
  then show "backend_renderer (fst (snd (init pl fo dev sub state root_paths))) = OpenGL"
    by (simp add: init_backend)
next
  assume "toupper (current_config_backend_renderer (cfg state)) \<noteq> ''OPENGL''"
  then show "backend_renderer (fst (snd (init pl fo dev sub state root_paths))) = Vulkan"
    by (simp add: init_backend)
qed

lemma toupper_OpenGL: "toupper ''OpenGL'' = ''OPENGL''"
  by code_simp

lemma toupper_Vulkan: "toupper ''Vulkan'' = ''VULKAN''"
  by code_simp

text \<open>
  A configuration that asks for \<^verbatim>\<open>OpenGL\<close>, on Apple and on Linux; then one that asks
  for \<^verbatim>\<open>Vulkan\<close>.
\<close>

theorem backend_selection_witness:
  "backend_renderer (fst (snd (init Apple exact_ops example_device example_subsystems
      example_state empty_root))) = Vulkan \<and>
   SerializeConfig (example_cfg\<lparr>cfg_backend_renderer := ''Vulkan''\<rparr>) ''/cfg/'' \<in>
     set (snd (snd (init Apple exact_ops example_device example_subsystems
       example_state empty_root))) \<and>
   fst (init Apple exact_ops example_device example_subsystems example_state empty_root) \<and>
   backend_renderer (fst (snd (init Linux exact_ops example_device example_subsystems
      example_state empty_root))) = OpenGL \<and>
   backend_renderer (fst (snd (init Linux exact_ops example_device example_subsystems
      (example_state\<lparr>cfg := example_cfg\<lparr>current_config_backend_renderer := ''Vulkan''\<rparr>\<rparr>)
      empty_root))) = Vulkan"
proof -
  have c: "cfg example_state = example_cfg" by (simp add: example_state_def)
  have r: "current_config_backend_renderer example_cfg = ''OpenGL''"
    "cfg_config_path example_cfg = ''/cfg/''" "\<not> console example_cfg"
    by (simp_all add: example_cfg_def)
  have s: "create_window_ok example_subsystems" "io_init_ok example_subsystems"
    "renderer_init example_subsystems Vulkan = Some Vulkan"
    by (simp_all add: example_subsystems_def)
  let ?s1 = "reconcile_pref_path Apple empty_root (seed_paths empty_root example_state)"
  have q: "toupper (current_config_backend_renderer (cfg ?s1)) = ''OPENGL''"
    by (simp add: reconcile_request c r toupper_OpenGL)
  have k: "cfg ?s1 = example_cfg"
    by (simp add: reconcile_pref_path_def seed_paths_def Let_def c)
       (simp add: example_cfg_def empty_root_def)
  have f: "cfg (fst (snd (init Apple exact_ops example_device example_subsystems
      example_state empty_root))) = example_cfg\<lparr>cfg_backend_renderer := ''Vulkan''\<rparr>"
    by (simp add: init_cfg select_backend_apple [OF q] k)
  from backend_selection [of Apple example_state exact_ops example_device example_subsystems
      empty_root]
    backend_selection [of Linux example_state exact_ops example_device example_subsystems
      empty_root]
    backend_selection [of Linux
      "example_state\<lparr>cfg := example_cfg\<lparr>current_config_backend_renderer := ''Vulkan''\<rparr>\<rparr>"
      exact_ops example_device example_subsystems empty_root]
  show ?thesis
    by (simp add: c r s f toupper_OpenGL toupper_Vulkan)
qed

subsection \<open>C8: pause twice, resume after pause\<close>

lemma pause_threads_idem: "pause_threads (pause_threads threads) = pause_threads threads"
  by (auto simp add: pause_threads_def)

lemma resume_after_pause:
  "threads t = Some run \<Longrightarrow> resume_threads (pause_threads threads) t = Some run"
  by (simp add: resume_threads_def pause_threads_def)

lemma switch_state_pause:
  "switch_state pl sub emuenv True =
     (if pl = Android
      then emuenv\<lparr>display_imgui_render := True, controller_overlay_state := 0,
                  kernel_threads := pause_threads (kernel_threads emuenv),
                  audio_paused := True\<rparr>
      else emuenv\<lparr>kernel_threads := pause_threads (kernel_threads emuenv),
                  audio_paused := True\<rparr>)"
  by (simp add: switch_state_def switch_state_effects_def audio_switch_state_def)

lemma switch_state_resume:
  "kernel_threads (switch_state pl sub emuenv False) = resume_threads (kernel_threads emuenv)"
  "audio_paused (switch_state pl sub emuenv False) = False"
  by (simp_all add: switch_state_def switch_state_effects_def audio_switch_state_def)

text \<open>
  Claim C8. Pausing twice gives the state that pausing once gives. Resuming after a
  pause sets every thread that ran before the pause running again, and leaves the
  audio stream not paused.
\<close>

theorem pause_idempotent_resume_restores:
  "switch_state pl sub (switch_state pl sub emuenv True) True = switch_state pl sub emuenv True \<and>
   (\<forall>t. kernel_threads emuenv t = Some run \<longrightarrow>
      kernel_threads (switch_state pl sub (switch_state pl sub emuenv True) False) t = Some run) \<and>
   \<not> audio_paused (switch_state pl sub (switch_state pl sub emuenv True) False)"
proof (intro conjI allI impI)
  show "switch_state pl sub (switch_state pl sub emuenv True) True =
      switch_state pl sub emuenv True"
    by (simp add: switch_state_pause pause_threads_idem)
next
  fix t assume "kernel_threads emuenv t = Some run"
  then show "kernel_threads (switch_state pl sub (switch_state pl sub emuenv True) False) t =
      Some run"
    by (simp add: switch_state_resume switch_state_pause resume_after_pause)
next
  show "\<not> audio_paused (switch_state pl sub (switch_state pl sub emuenv True) False)"
    by (simp add: switch_state_resume)
qed

text \<open>
  Thread 1 of \<open>example_state\<close> runs, waits while paused, and runs again after the resume.
\<close>

theorem pause_idempotent_resume_restores_witness:
  "kernel_threads example_state 1 = Some run \<and>
   kernel_threads (switch_state Android example_subsystems example_state True) 1 = Some wait \<and>
   audio_paused (switch_state Android example_subsystems example_state True) \<and>
   switch_state Android example_subsystems
       (switch_state Android example_subsystems example_state True) True =
     switch_state Android example_subsystems example_state True \<and>
   kernel_threads (switch_state Android example_subsystems
       (switch_state Android example_subsystems example_state True) False) 1 = Some run \<and>
   \<not> audio_paused (switch_state Android example_subsystems
       (switch_state Android example_subsystems example_state True) False)"
proof -
  have r: "kernel_threads example_state 1 = Some run"
    by (simp add: example_state_def)
  from pause_idempotent_resume_restores [of Android example_subsystems example_state] r
  show ?thesis
    by (simp add: switch_state_pause pause_threads_def)
qed

subsection \<open>C9: the fan-out under a concurrent reader\<close>

lemma reaches_refl: "reaches c c"
  by (simp add: reaches_def)

lemma reaches_step: "reaches a b \<Longrightarrow> step b c \<Longrightarrow> reaches a c"
  by (auto simp add: reaches_def)

lemma reaches_trans: "reaches a b \<Longrightarrow> reaches b c \<Longrightarrow> reaches a c"
  by (auto simp add: reaches_def)

lemma reaches_invariant:
  assumes "reaches (start program state) c"
  shows "applied c @ pending c = program \<and>
         current c = fold apply_effect (applied c) state \<and>
         (\<forall>(d, s) \<in> set (observed c). prefix d program \<and> s = fold apply_effect d state)"
  using assms unfolding reaches_def
proof (induction rule: rtranclp_induct)
  case base
  show ?case by (simp add: start_def)
next
  case (step b c)
  from step.hyps(2) step.IH show ?case
    by (cases rule: step.cases) (auto simp add: prefix_def)
qed

lemma reaches_exec:
  "pending c = d @ rest \<Longrightarrow>
     reaches c (c\<lparr>pending := rest, applied := applied c @ d,
                 current := fold apply_effect d (current c)\<rparr>)"
proof (induction d arbitrary: c)
  case Nil
  then have "c\<lparr>pending := rest, applied := applied c @ [],
      current := fold apply_effect [] (current c)\<rparr> = c" by simp
  then show ?case by (simp add: reaches_refl)
next
  case (Cons e d)
  let ?c1 = "c\<lparr>pending := d @ rest, applied := applied c @ [e],
      current := apply_effect e (current c)\<rparr>"
  have "pending c = e # (d @ rest)" using Cons.prems by simp
  then have s: "step c ?c1" by (rule step.exec)
  have "reaches ?c1 (?c1\<lparr>pending := rest, applied := applied ?c1 @ d,
      current := fold apply_effect d (current ?c1)\<rparr>)"
    by (rule Cons.IH) simp
  then have "reaches ?c1 (c\<lparr>pending := rest, applied := applied c @ e # d,
      current := fold apply_effect (e # d) (current c)\<rparr>)" by simp
  with s show ?case
    unfolding reaches_def by (rule converse_rtranclp_into_rtranclp)
qed

lemma prefix_observable:
  assumes "prefix d program"
  shows "\<exists>c. reaches (start program state) c \<and>
             (d, fold apply_effect d state) \<in> set (observed c)"
proof -
  from assms obtain rest where p: "program = d @ rest" by (auto simp add: prefix_def)
  let ?c0 = "start program state"
  let ?c1 = "?c0\<lparr>pending := rest, applied := applied ?c0 @ d,
      current := fold apply_effect d (current ?c0)\<rparr>"
  let ?c2 = "?c1\<lparr>observed := observed ?c1 @ [(applied ?c1, current ?c1)]\<rparr>"
  have "pending ?c0 = d @ rest" by (simp add: start_def p)
  then have "reaches ?c0 ?c1" by (rule reaches_exec)
  moreover have "step ?c1 ?c2" by (rule step.observe)
  ultimately have "reaches ?c0 ?c2" by (rule reaches_step)
  moreover have "(d, fold apply_effect d state) \<in> set (observed ?c2)"
    by (simp add: start_def)
  ultimately show ?thesis by blast
qed

lemma effects_shape:
  "\<exists>overlay.
      switch_state_effects pl sub c pause =
        overlay @ [if pause then PauseThreads else ResumeThreads, AudioSwitchState pause] \<and>
      set overlay \<subseteq> range SetImguiRender \<union> range SetControllerOverlayState"
  by (auto simp add: switch_state_effects_def)

lemma audio_after_threads:
  assumes "prefix d (switch_state_effects pl sub c pause)"
    and "AudioSwitchState pause \<in> set d"
  shows "(if pause then PauseThreads else ResumeThreads) \<in> set d"
proof -
  from effects_shape [of pl sub c pause] obtain overlay where
    e: "switch_state_effects pl sub c pause =
        overlay @ [if pause then PauseThreads else ResumeThreads, AudioSwitchState pause]"
    and o: "set overlay \<subseteq> range SetImguiRender \<union> range SetControllerOverlayState"
    by blast
  let ?t = "if pause then PauseThreads else ResumeThreads"
  from assms(1) have "prefix d ((overlay @ [?t]) @ [AudioSwitchState pause])"
    by (simp add: e)
  then have "d = (overlay @ [?t]) @ [AudioSwitchState pause] \<or> prefix d (overlay @ [?t])"
    by (simp only: prefix_snoc)
  then show ?thesis
  proof
    assume "d = (overlay @ [?t]) @ [AudioSwitchState pause]"
    then show ?thesis by simp
  next
    assume "prefix d (overlay @ [?t])"
    then have "set d \<subseteq> set (overlay @ [?t])" by (rule set_mono_prefix)
    with assms(2) o show ?thesis by auto
  qed
qed

lemma midway_state:
  "kernel_threads (fold apply_effect (butlast (switch_state_effects pl sub c pause)) emuenv) =
     (if pause then pause_threads (kernel_threads emuenv)
      else resume_threads (kernel_threads emuenv)) \<and>
   audio_paused (fold apply_effect (butlast (switch_state_effects pl sub c pause)) emuenv) =
     audio_paused emuenv \<and>
   (if pause then PauseThreads else ResumeThreads) \<in>
     set (butlast (switch_state_effects pl sub c pause)) \<and>
   AudioSwitchState pause \<notin> set (butlast (switch_state_effects pl sub c pause))"
  by (simp add: switch_state_effects_def butlast_append)

text \<open>
  Claim C9. In both directions the effects of \<^verbatim>\<open>switch_state\<close> are, in program order,
  the overlay toggles (Android only), the thread transition, and the audio transition
  last. Under every interleaving of the controlling thread with a reader:

    \<^item> the reader only sees states that a prefix of this list produces, and whenever
      it sees the audio transition applied, the thread transition is applied too; a
      run with nothing left to apply ends in the state that \<^verbatim>\<open>switch_state\<close> returns;
    \<^item> every prefix is seen in some run;
    \<^item> in particular there is a run in which the reader sees the thread transition
      applied and the audio stream still as it was before the call: the effects are
      not one atomic unit.
\<close>

theorem switch_state_interleaving:
  assumes P: "program = switch_state_effects pl sub (cfg emuenv) pause"
    and T: "threads = (if pause then PauseThreads else ResumeThreads)"
  shows
    "(\<exists>overlay. program = overlay @ [threads, AudioSwitchState pause] \<and>
        set overlay \<subseteq> range SetImguiRender \<union> range SetControllerOverlayState) \<and>
     (\<forall>c. reaches (start program emuenv) c \<longrightarrow>
        (\<forall>(d, s) \<in> set (observed c).
           prefix d program \<and> s = fold apply_effect d emuenv \<and>
           (AudioSwitchState pause \<in> set d \<longrightarrow> threads \<in> set d)) \<and>
        (pending c = [] \<longrightarrow> current c = switch_state pl sub emuenv pause)) \<and>
     (\<forall>d. prefix d program \<longrightarrow>
        (\<exists>c. reaches (start program emuenv) c \<and>
             (d, fold apply_effect d emuenv) \<in> set (observed c))) \<and>
     (\<exists>c s. reaches (start program emuenv) c \<and>
        (butlast program, s) \<in> set (observed c) \<and>
        threads \<in> set (butlast program) \<and>
        AudioSwitchState pause \<notin> set (butlast program) \<and>
        kernel_threads s =
          (if pause then pause_threads (kernel_threads emuenv)
           else resume_threads (kernel_threads emuenv)) \<and>
        audio_paused s = audio_paused emuenv)"
proof (intro conjI allI impI)
  show "\<exists>overlay. program = overlay @ [threads, AudioSwitchState pause] \<and>
        set overlay \<subseteq> range SetImguiRender \<union> range SetControllerOverlayState"
    unfolding P T by (rule effects_shape)
next
  fix c assume r: "reaches (start program emuenv) c"
  note i = reaches_invariant [OF r]
  show "\<forall>(d, s) \<in> set (observed c).
           prefix d program \<and> s = fold apply_effect d emuenv \<and>
           (AudioSwitchState pause \<in> set d \<longrightarrow> threads \<in> set d)"
    using i audio_after_threads [of _ pl sub "cfg emuenv" pause]
    unfolding P T by blast
  show "current c = switch_state pl sub emuenv pause" if "pending c = []"
    using i that by (simp add: switch_state_def P)
next
  fix d assume "prefix d program"
  then show "\<exists>c. reaches (start program emuenv) c \<and>
             (d, fold apply_effect d emuenv) \<in> set (observed c)"
    by (rule prefix_observable)
next
  have "prefix (butlast program) program" by (rule prefixeq_butlast)
  from prefix_observable [OF this, of emuenv] obtain c where
    c: "reaches (start program emuenv) c"
      "(butlast program, fold apply_effect (butlast program) emuenv) \<in> set (observed c)"
    by blast
  show "\<exists>c s. reaches (start program emuenv) c \<and>
        (butlast program, s) \<in> set (observed c) \<and>
        threads \<in> set (butlast program) \<and>
        AudioSwitchState pause \<notin> set (butlast program) \<and>
        kernel_threads s =
          (if pause then pause_threads (kernel_threads emuenv)
           else resume_threads (kernel_threads emuenv)) \<and>
        audio_paused s = audio_paused emuenv"
    using c midway_state [of pl sub "cfg emuenv" pause emuenv]
    unfolding P T by blast
qed

text \<open>
  Pausing \<open>example_state\<close> on Android: a reader can see thread 1 waiting while the audio
  stream still plays, and can see the overlay shown before anything else happened.
\<close>

theorem switch_state_interleaving_witness:
  "switch_state_effects Android example_subsystems (cfg example_state) True =
     [SetImguiRender True, SetControllerOverlayState 0, PauseThreads, AudioSwitchState True] \<and>
   (\<exists>c s. reaches (start [SetImguiRender True, SetControllerOverlayState 0, PauseThreads,
                            AudioSwitchState True] example_state) c \<and>
      ([SetImguiRender True, SetControllerOverlayState 0, PauseThreads], s) \<in> set (observed c) \<and>
      s = fold apply_effect [SetImguiRender True, SetControllerOverlayState 0, PauseThreads]
            example_state \<and>
      kernel_threads s 1 = Some wait \<and> kernel_threads example_state 1 = Some run \<and>
      \<not> audio_paused s) \<and>
   (\<exists>c. reaches (start [SetImguiRender True, SetControllerOverlayState 0, PauseThreads,
                          AudioSwitchState True] example_state) c \<and>
      ([SetImguiRender True], example_state\<lparr>display_imgui_render := True\<rparr>)
        \<in> set (observed c)) \<and>
   audio_paused (switch_state Android example_subsystems example_state True)"
proof -
  let ?p = "[SetImguiRender True, SetControllerOverlayState 0, PauseThreads,
            AudioSwitchState True]"
  have e: "switch_state_effects Android example_subsystems (cfg example_state) True = ?p"
    by (simp add: switch_state_effects_def)
  have a: "kernel_threads example_state 1 = Some run" "\<not> audio_paused example_state"
    by (simp_all add: example_state_def)
  note t = switch_state_interleaving [OF refl refl, of Android example_subsystems
      example_state True, unfolded e]
  from t obtain c s where c: "reaches (start ?p example_state) c"
      "(butlast ?p, s) \<in> set (observed c)"
      "kernel_threads s = pause_threads (kernel_threads example_state)"
      "audio_paused s = audio_paused example_state"
    by auto
  from t c(1) have "\<forall>(d, s) \<in> set (observed c). s = fold apply_effect d example_state"
    by blast
  with c(2) have s: "s = fold apply_effect (butlast ?p) example_state" by blast
  have first: "\<exists>c s. reaches (start ?p example_state) c \<and>
      ([SetImguiRender True, SetControllerOverlayState 0, PauseThreads], s) \<in> set (observed c) \<and>
      s = fold apply_effect [SetImguiRender True, SetControllerOverlayState 0, PauseThreads]
            example_state \<and>
      kernel_threads s 1 = Some wait \<and> kernel_threads example_state 1 = Some run \<and>
      \<not> audio_paused s"
    using c s a by (intro exI [of _ c] exI [of _ s]) (simp add: pause_threads_def)
  have "prefix [SetImguiRender True] ?p" by simp
  with t have "\<exists>c. reaches (start ?p example_state) c \<and>
      ([SetImguiRender True], fold apply_effect [SetImguiRender True] example_state)
        \<in> set (observed c)"
    by blast
  then have second: "\<exists>c. reaches (start ?p example_state) c \<and>
      ([SetImguiRender True], example_state\<lparr>display_imgui_render := True\<rparr>)
        \<in> set (observed c)"
    by simp
  have third: "audio_paused (switch_state Android example_subsystems example_state True)"
    by (simp add: switch_state_pause)
  from e first second third show ?thesis by blast
qed

text \<open>
  The contrast: were the call a single effect, a reader could only see the state
  before it or the state after it.
\<close>

lemma one_effect_is_atomic:
  assumes "reaches (start [e] state) c" and "(d, s) \<in> set (observed c)"
  shows "(d, s) = ([], state) \<or> (d, s) = ([e], apply_effect e state)"
proof -
  from reaches_invariant [OF assms(1)] assms(2)
  have "prefix d [e]" and s: "s = fold apply_effect d state" by auto
  then have "d = [] \<or> d = [e]" by (cases d) auto
  with s show ?thesis by auto
qed

end
